theory Spec2Isabelle
  imports Complex_Main
begin

section \<open>Global style tokens: the reference encoder, the token layer and the attention block\<close>

text \<open>
  A shallow embedding of \<^verbatim>\<open>modules.py\<close>: the classes \<^verbatim>\<open>ReferenceEncoder\<close>,
  \<^verbatim>\<open>STL\<close>, \<^verbatim>\<open>MultiHeadAttention\<close> and \<^verbatim>\<open>GST\<close>.

  Tensors are nested lists of real numbers, outermost axis first: exact arithmetic stands
  for the 32-bit floats of the library, so rounding and non-finite values are outside the
  model. A tensor with an empty axis is represented without the extents of its inner
  axes. Every exception of the Python code is a value \<open>Inl e\<close> of the result type.
\<close>

subsection \<open>Errors and tensors\<close>

datatype error = TypeError | RuntimeError | ValueError | IndexError | ZeroDivisionError

type_synonym tensor1 = "real list"
type_synonym tensor2 = "real list list"
type_synonym tensor3 = "real list list list"
type_synonym tensor4 = "real list list list list"

text \<open>
  The values a constructor draws for a fresh parameter (the library's random initialisers,
  \<^verbatim>\<open>init.normal_\<close>) are read from a seed: a function from a path of indices to the
  value stored there. \<open>sub s k\<close> is the part of the seed below index \<open>k\<close>.
\<close>

type_synonym seed = "nat list \<Rightarrow> real"

definition sub :: "seed \<Rightarrow> nat \<Rightarrow> seed" where
  "sub s k = (\<lambda>idx. s (k # idx))"

definition tensor1_of :: "seed \<Rightarrow> nat \<Rightarrow> tensor1" where
  "tensor1_of s n = map (\<lambda>i. s [i]) [0..<n]"

definition tensor2_of :: "seed \<Rightarrow> nat \<Rightarrow> nat \<Rightarrow> tensor2" where
  "tensor2_of s n m = map (\<lambda>i. tensor1_of (sub s i) m) [0..<n]"

definition tensor3_of :: "seed \<Rightarrow> nat \<Rightarrow> nat \<Rightarrow> nat \<Rightarrow> tensor3" where
  "tensor3_of s n m k = map (\<lambda>i. tensor2_of (sub s i) m k) [0..<n]"

definition tensor4_of :: "seed \<Rightarrow> nat \<Rightarrow> nat \<Rightarrow> nat \<Rightarrow> nat \<Rightarrow> tensor4" where
  "tensor4_of s n m k l = map (\<lambda>i. tensor3_of (sub s i) m k l) [0..<n]"

subsection \<open>Hyperparameters\<close>

record hparams =
  ref_enc_filters :: "int list"
  n_mel_channels :: int
  ref_enc_gru_size :: int
  token_num :: int
  token_embedding_size :: int
  num_heads :: int

subsection \<open>The frequency-axis size after the convolutions\<close>

text \<open>
  \<^verbatim>\<open>for _ in range(n_convs): L = (L - kernel_size + 2 * pad) // stride + 1\<close>.
  Python's \<^verbatim>\<open>//\<close> on integers is floor division, as \<open>div\<close> on \<open>int\<close> is; a zero
  stride raises in the first round of the loop. \<^verbatim>\<open>range\<close> of a negative number is empty.
\<close>

fun calculate_channels_loop :: "nat \<Rightarrow> int \<Rightarrow> int \<Rightarrow> int \<Rightarrow> int \<Rightarrow> error + int" where
  "calculate_channels_loop 0 L kernel_size stride pad = Inr L"
| "calculate_channels_loop (Suc n) L kernel_size stride pad =
     (if stride = 0 then Inl ZeroDivisionError
      else calculate_channels_loop n ((L - kernel_size + 2 * pad) div stride + 1)
             kernel_size stride pad)"

definition calculate_channels :: "int \<Rightarrow> int \<Rightarrow> int \<Rightarrow> int \<Rightarrow> int \<Rightarrow> error + int" where
  "calculate_channels L kernel_size stride pad n_convs =
     calculate_channels_loop (nat n_convs) L kernel_size stride pad"

subsection \<open>The library's layers: parameters and constructors\<close>

text \<open>
  \<^verbatim>\<open>nn.Conv2d\<close> with the kernel 3x3, the stride 2x2 and the padding 1x1 of the source:
  a weight of extents [out, in, 3, 3] and a bias of extent [out]. A negative extent is
  refused by the allocator.
\<close>

record Conv2d =
  in_channels :: nat
  out_channels :: nat
  conv_weight :: tensor4
  conv_bias :: tensor1

definition Conv2d_init :: "seed \<Rightarrow> int \<Rightarrow> int \<Rightarrow> error + Conv2d" where
  "Conv2d_init s cin cout =
     (if cin < 0 \<or> cout < 0 then Inl RuntimeError
      else Inr \<lparr>in_channels = nat cin, out_channels = nat cout,
                conv_weight = tensor4_of (sub s 0) (nat cout) (nat cin) 3 3,
                conv_bias = tensor1_of (sub s 1) (nat cout)\<rparr>)"

text \<open>
  \<^verbatim>\<open>nn.BatchNorm2d\<close>: the learned scale and shift, and the buffers: the running mean and
  variance and the count of batches seen. A fresh layer is in training mode, with scale 1,
  shift 0, running mean 0, running variance 1 and count 0.
\<close>

record BatchNorm2d =
  num_features :: nat
  bn_weight :: tensor1
  bn_bias :: tensor1
  running_mean :: tensor1
  running_var :: tensor1
  num_batches_tracked :: nat
  training :: bool

definition BatchNorm2d_init :: "int \<Rightarrow> error + BatchNorm2d" where
  "BatchNorm2d_init c =
     (if c < 0 then Inl RuntimeError
      else Inr \<lparr>num_features = nat c,
                bn_weight = replicate (nat c) 1, bn_bias = replicate (nat c) 0,
                running_mean = replicate (nat c) 0, running_var = replicate (nat c) 1,
                num_batches_tracked = 0, training = True\<rparr>)"

text \<open>
  \<^verbatim>\<open>nn.GRU\<close> with one layer, one direction: the input-to-hidden and hidden-to-hidden
  weights of extents [3 * hidden, input] and [3 * hidden, hidden] (the rows of the reset,
  the update and the new gate, in this order) and the two biases of extent [3 * hidden].
\<close>

record GRU =
  input_size :: nat
  hidden_size :: nat
  weight_ih :: tensor2
  weight_hh :: tensor2
  bias_ih :: tensor1
  bias_hh :: tensor1

definition GRU_init :: "seed \<Rightarrow> int \<Rightarrow> int \<Rightarrow> error + GRU" where
  "GRU_init s inp hid =
     (if inp < 0 \<or> hid < 0 then Inl RuntimeError
      else Inr \<lparr>input_size = nat inp, hidden_size = nat hid,
                weight_ih = tensor2_of (sub s 0) (3 * nat hid) (nat inp),
                weight_hh = tensor2_of (sub s 1) (3 * nat hid) (nat hid),
                bias_ih = tensor1_of (sub s 2) (3 * nat hid),
                bias_hh = tensor1_of (sub s 3) (3 * nat hid)\<rparr>)"

text \<open>\<^verbatim>\<open>nn.Linear\<close> without bias: a weight of extents [out_features, in_features].\<close>

record Linear =
  in_features :: nat
  out_features :: nat
  lin_weight :: tensor2

definition Linear_init :: "seed \<Rightarrow> int \<Rightarrow> int \<Rightarrow> error + Linear" where
  "Linear_init s n_in n_out =
     (if n_in < 0 \<or> n_out < 0 then Inl RuntimeError
      else Inr \<lparr>in_features = nat n_in, out_features = nat n_out,
                lin_weight = tensor2_of s (nat n_out) (nat n_in)\<rparr>)"

text \<open>A list comprehension over constructors: the first exception ends it.\<close>

fun collect :: "(error + 'a) list \<Rightarrow> error + 'a list" where
  "collect [] = Inr []"
| "collect (r # rs) =
     (case r of Inl e \<Rightarrow> Inl e
      | Inr v \<Rightarrow> (case collect rs of Inl e \<Rightarrow> Inl e | Inr vs \<Rightarrow> Inr (v # vs)))"

subsection \<open>ReferenceEncoder: construction\<close>

record ReferenceEncoder =
  convs :: "Conv2d list"
  bns :: "BatchNorm2d list"
  gru :: GRU
  enc_n_mel_channels :: int
  enc_ref_enc_gru_size :: int

text \<open>
  \<^verbatim>\<open>hparams.ref_enc_filters[-1]\<close> raises IndexError on an empty list; it is evaluated
  after \<^verbatim>\<open>calculate_channels\<close> has returned, as an argument of \<^verbatim>\<open>nn.GRU\<close>.
\<close>

definition py_last :: "'a list \<Rightarrow> error + 'a" where
  "py_last xs = (if xs = [] then Inl IndexError else Inr (last xs))"

definition ReferenceEncoder_init :: "seed \<Rightarrow> hparams \<Rightarrow> error + ReferenceEncoder" where
  "ReferenceEncoder_init s hp =
     (let K = length (ref_enc_filters hp);
          filters = 1 # ref_enc_filters hp
      in case collect (map (\<lambda>i. Conv2d_init (sub (sub s 0) i) (filters ! i) (filters ! (i + 1)))
                         [0..<K]) of
           Inl e \<Rightarrow> Inl e
         | Inr cs \<Rightarrow>
        (case collect (map (\<lambda>i. BatchNorm2d_init (ref_enc_filters hp ! i)) [0..<K]) of
           Inl e \<Rightarrow> Inl e
         | Inr bs \<Rightarrow>
        (case calculate_channels (n_mel_channels hp) 3 2 1 (int K) of
           Inl e \<Rightarrow> Inl e
         | Inr out_chans \<Rightarrow>
        (case py_last (ref_enc_filters hp) of
           Inl e \<Rightarrow> Inl e
         | Inr c_last \<Rightarrow>
        (case GRU_init (sub s 1) (c_last * out_chans) (ref_enc_gru_size hp) of
           Inl e \<Rightarrow> Inl e
         | Inr g \<Rightarrow>
           Inr \<lparr>convs = cs, bns = bs, gru = g,
                enc_n_mel_channels = n_mel_channels hp,
                enc_ref_enc_gru_size = ref_enc_gru_size hp\<rparr>)))))"

subsection \<open>Python and library primitives used by the forward passes\<close>

definition bind :: "error + 'a \<Rightarrow> ('a \<Rightarrow> error + 'b) \<Rightarrow> error + 'b" where
  "bind r f = (case r of Inl e \<Rightarrow> Inl e | Inr v \<Rightarrow> f v)"

text \<open>\<^verbatim>\<open>a // b\<close> on Python integers.\<close>

definition py_floordiv :: "int \<Rightarrow> int \<Rightarrow> error + int" where
  "py_floordiv a b = (if b = 0 then Inl ZeroDivisionError else Inr (a div b))"

definition dot :: "tensor1 \<Rightarrow> tensor1 \<Rightarrow> real" where
  "dot a b = sum_list (map2 (*) a b)"

text \<open>
  \<^verbatim>\<open>nn.Linear\<close> applied to a tensor [N, T, in_features]: every vector of the last axis is
  multiplied with the transposed weight. A last axis of another extent is refused.
\<close>

definition Linear_forward :: "Linear \<Rightarrow> tensor3 \<Rightarrow> error + tensor3" where
  "Linear_forward l x =
     (if list_all (list_all (\<lambda>v. length v = in_features l)) x
      then Inr (map (map (\<lambda>v. map (\<lambda>w. dot v w) (lin_weight l))) x)
      else Inl RuntimeError)"

text \<open>
  \<^verbatim>\<open>torch.split(x, split_size, dim=2)\<close> on a tensor whose last axis has extent
  \<open>dim_size\<close>: chunks of \<open>split_size\<close> entries, the last one shorter when \<open>split_size\<close>
  does not divide \<open>dim_size\<close>, and at least one chunk. A negative \<open>split_size\<close> is
  refused, and so is a zero one unless the axis is empty.
\<close>

definition num_splits :: "nat \<Rightarrow> nat \<Rightarrow> nat" where
  "num_splits dim_size split_size = max ((dim_size + split_size - 1) div split_size) 1"

definition torch_split_last :: "nat \<Rightarrow> tensor3 \<Rightarrow> int \<Rightarrow> error + tensor3 list" where
  "torch_split_last dim_size x split_size =
     (if split_size < 0 then Inl RuntimeError
      else if split_size = 0 then (if dim_size = 0 then Inr [x] else Inl RuntimeError)
      else Inr (map (\<lambda>i. map (map (\<lambda>v. take (nat split_size) (drop (i * nat split_size) v))) x)
                  [0..<num_splits dim_size (nat split_size)]))"

text \<open>
  \<^verbatim>\<open>torch.stack(chunks, dim=0)\<close>: the chunks become the entries of a new first axis;
  chunks of different extents are refused.
\<close>

definition extents3 :: "tensor3 \<Rightarrow> nat list list" where
  "extents3 x = map (map length) x"

definition torch_stack :: "tensor3 list \<Rightarrow> error + tensor4" where
  "torch_stack cs =
     (case cs of [] \<Rightarrow> Inl RuntimeError
      | c # _ \<Rightarrow> if list_all (\<lambda>d. extents3 d = extents3 c) cs then Inr cs else Inl RuntimeError)"

text \<open>
  \<^verbatim>\<open>torch.matmul\<close> on the last two axes, \<^verbatim>\<open>transpose\<close> of the last two axes, and the
  broadcasting of the leading axes: two leading extents must be equal, or one of them 1.
\<close>

definition transpose_last2 :: "tensor2 \<Rightarrow> tensor2" where
  "transpose_last2 x =
     (case x of [] \<Rightarrow> [] | r # _ \<Rightarrow> map (\<lambda>j. map (\<lambda>row. row ! j) x) [0..<length r])"

definition matmul :: "tensor2 \<Rightarrow> tensor2 \<Rightarrow> error + tensor2" where
  "matmul a b =
     (if list_all (\<lambda>r. length r = length b) a
      then Inr (map (\<lambda>r. map (\<lambda>c. dot r c) (transpose_last2 b)) a)
      else Inl RuntimeError)"

definition broadcast2 :: "('a \<Rightarrow> 'b \<Rightarrow> error + 'c) \<Rightarrow> 'a list \<Rightarrow> 'b list \<Rightarrow> error + 'c list" where
  "broadcast2 f xs ys =
     (if length xs = length ys then collect (map2 f xs ys)
      else if length xs = 1 then collect (map (f (hd xs)) ys)
      else if length ys = 1 then collect (map (\<lambda>x. f x (hd ys)) xs)
      else Inl RuntimeError)"

definition matmul4 :: "tensor4 \<Rightarrow> tensor4 \<Rightarrow> error + tensor4" where
  "matmul4 a b = broadcast2 (broadcast2 matmul) a b"

text \<open>\<^verbatim>\<open>F.softmax\<close> over one axis.\<close>

definition softmax :: "tensor1 \<Rightarrow> tensor1" where
  "softmax v = map (\<lambda>x. exp x / sum_list (map exp v)) v"

text \<open>
  \<^verbatim>\<open>torch.cat(torch.split(out, 1, dim=0), dim=3)\<close>: the chunks [1, N, T, d] of the
  first axis are laid side by side on the last axis; chunks that differ on another axis are
  refused. \<^verbatim>\<open>squeeze(0)\<close> then drops the first axis, whose extent is 1.
\<close>

definition torch_split0_1 :: "tensor4 \<Rightarrow> tensor4 list" where
  "torch_split0_1 x = (if x = [] then [[]] else map (\<lambda>c. [c]) x)"

definition torch_cat3 :: "tensor4 list \<Rightarrow> error + tensor4" where
  "torch_cat3 cs =
     (case cs of [] \<Rightarrow> Inl RuntimeError
      | c # _ \<Rightarrow>
          if list_all (\<lambda>d. map (map length) d = map (map length) c) cs
          then Inr (map (\<lambda>a. map (\<lambda>n. map (\<lambda>t. concat (map (\<lambda>d. d ! a ! n ! t) cs))
                                         [0..<length (c ! a ! n)])
                                [0..<length (c ! a)])
                      [0..<length c])
          else Inl RuntimeError)"

fun squeeze0 :: "'a list list \<Rightarrow> 'a list" where
  "squeeze0 [x] = x"
| "squeeze0 xs = concat xs"

subsection \<open>MultiHeadAttention\<close>

record MultiHeadAttention =
  num_units :: int
  mha_num_heads :: int
  key_dim :: int
  W_query :: Linear
  W_key :: Linear
  W_value :: Linear

definition MultiHeadAttention_init ::
  "seed \<Rightarrow> int \<Rightarrow> int \<Rightarrow> int \<Rightarrow> int \<Rightarrow> error + MultiHeadAttention" where
  "MultiHeadAttention_init s query_dim kdim n_units n_heads =
     bind (Linear_init (sub s 0) query_dim n_units) (\<lambda>wq.
     bind (Linear_init (sub s 1) kdim n_units) (\<lambda>wk.
     bind (Linear_init (sub s 2) kdim n_units) (\<lambda>wv.
     Inr \<lparr>num_units = n_units, mha_num_heads = n_heads, key_dim = kdim,
          W_query = wq, W_key = wk, W_value = wv\<rparr>)))"

text \<open>
  Lines 109 to 116 of the source: the three projections, and each projected tensor split on
  its last axis into chunks of \<^verbatim>\<open>num_units // num_heads\<close> entries that are stacked on a
  new first axis.
\<close>

definition split_heads :: "MultiHeadAttention \<Rightarrow> Linear \<Rightarrow> tensor3 \<Rightarrow> error + tensor4" where
  "split_heads m w x =
     bind (Linear_forward w x) (\<lambda>y.
     bind (py_floordiv (num_units m) (mha_num_heads m)) (\<lambda>split_size.
     bind (torch_split_last (out_features w) y split_size) torch_stack))"

text \<open>
  Lines 118 and 119: \<^verbatim>\<open>scores = matmul(querys, keys.transpose(2,3)) / key_dim ** 0.5\<close>.
  The power of a negative integer is a complex number in Python, and the library's softmax
  then refuses the complex tensor. For \<^verbatim>\<open>key_dim = 0\<close> the floats are infinite or undefined
  and no exception is raised: this case is outside the model.
\<close>

definition attention_scores :: "int \<Rightarrow> tensor4 \<Rightarrow> tensor4 \<Rightarrow> error + tensor4" where
  "attention_scores kd querys keys =
     bind (matmul4 querys (map (map transpose_last2) keys)) (\<lambda>scores.
     if kd < 0 then Inl RuntimeError
     else Inr (map (map (map (map (\<lambda>x. x / sqrt (of_int kd))))) scores))"

text \<open>Line 120: the softmax over the key positions (axis 3).\<close>

definition attention_weights :: "tensor4 \<Rightarrow> tensor4" where
  "attention_weights scores = map (map (map softmax)) scores"

text \<open>Line 124: the heads laid side by side on the feature axis.\<close>

definition merge_heads :: "tensor4 \<Rightarrow> error + tensor3" where
  "merge_heads out = bind (torch_cat3 (torch_split0_1 out)) (\<lambda>r. Inr (squeeze0 r))"

definition MultiHeadAttention_forward ::
  "MultiHeadAttention \<Rightarrow> tensor3 \<Rightarrow> tensor3 \<Rightarrow> error + tensor3" where
  "MultiHeadAttention_forward m query key =
     bind (split_heads m (W_query m) query) (\<lambda>querys.
     bind (split_heads m (W_key m) key) (\<lambda>keys.
     bind (split_heads m (W_value m) key) (\<lambda>vals.
     bind (attention_scores (key_dim m) querys keys) (\<lambda>scores.
     bind (matmul4 (attention_weights scores) vals) merge_heads))))"

subsection \<open>STL\<close>

record STL =
  embed :: tensor2
  attention :: MultiHeadAttention

text \<open>
  \<^verbatim>\<open>token_embedding_size // num_heads\<close> is evaluated first, for the extent of the token
  bank; \<^verbatim>\<open>torch.FloatTensor\<close> refuses a negative extent. The values of the bank are those
  \<^verbatim>\<open>init.normal_\<close> leaves in it.
\<close>

definition STL_init :: "seed \<Rightarrow> hparams \<Rightarrow> error + STL" where
  "STL_init s hp =
     bind (py_floordiv (token_embedding_size hp) (num_heads hp)) (\<lambda>d.
     if token_num hp < 0 \<or> d < 0 then Inl RuntimeError
     else
       let d_q = ref_enc_gru_size hp;
           d_k = token_embedding_size hp div num_heads hp
       in bind (MultiHeadAttention_init (sub s 1) d_q d_k (token_embedding_size hp) (num_heads hp))
            (\<lambda>att. Inr \<lparr>embed = tensor2_of (sub s 0) (nat (token_num hp)) (nat d),
                          attention = att\<rparr>))"

definition STL_forward :: "STL \<Rightarrow> tensor2 \<Rightarrow> error + tensor3" where
  "STL_forward self inputs =
     (let N = length inputs;
          query = map (\<lambda>v. [v]) inputs;
          keys = replicate N (map (map tanh) (embed self));
          style_embed = MultiHeadAttention_forward (attention self) query keys
      in style_embed)"

subsection \<open>ReferenceEncoder: the forward pass\<close>

text \<open>
  The extents of the inner axes of a tensor, read off its first entries (0 for an empty
  tensor).
\<close>

definition extent1 :: "'a list list \<Rightarrow> nat" where
  "extent1 x = (case x of [] \<Rightarrow> 0 | e # _ \<Rightarrow> length e)"

definition extent2 :: "'a list list list \<Rightarrow> nat" where
  "extent2 x = (case x of [] \<Rightarrow> 0 | e # _ \<Rightarrow> extent1 e)"

definition extent3 :: "'a list list list list \<Rightarrow> nat" where
  "extent3 x = (case x of [] \<Rightarrow> 0 | e # _ \<Rightarrow> extent2 e)"

text \<open>
  \<^verbatim>\<open>inputs.view(inputs.size(0), 1, -1, n_mel_channels)\<close> on a contiguous tensor
  [N, T, M]: the buffer of each example is cut into rows of \<^verbatim>\<open>n_mel_channels\<close> entries.
  The library infers the extent written -1 when the product \<open>N * n_mel_channels\<close> of the
  other extents is not zero and divides the number \<open>N * T * M\<close> of elements, and refuses
  the call otherwise.
\<close>

definition rows_of :: "nat \<Rightarrow> 'a list \<Rightarrow> 'a list list" where
  "rows_of k xs = map (\<lambda>i. take k (drop (i * k) xs)) [0..<length xs div k]"

definition view_N_1_mel :: "int \<Rightarrow> tensor3 \<Rightarrow> error + tensor4" where
  "view_N_1_mel n_mel inputs =
     (if inputs = [] \<or> n_mel \<le> 0
         \<or> \<not> list_all (\<lambda>e. length (concat e) mod nat n_mel = 0) inputs
      then Inl RuntimeError
      else Inr (map (\<lambda>e. [rows_of (nat n_mel) (concat e)]) inputs))"

text \<open>
  \<^verbatim>\<open>nn.Conv2d\<close> with kernel 3x3, stride 2x2, padding 1x1 on a tensor [N, C, H, W]:
  an input with another number of channels, or with an empty spatial axis, is refused.
  \<open>pad_get ch r c\<close> reads the channel \<open>ch\<close> at row \<open>r\<close> and column \<open>c\<close> of its
  zero-padded frame.
\<close>

definition pad_get :: "tensor2 \<Rightarrow> nat \<Rightarrow> nat \<Rightarrow> real" where
  "pad_get ch r c =
     (if 1 \<le> r \<and> r \<le> length ch \<and> 1 \<le> c \<and> c \<le> extent1 ch
      then ch ! (r - 1) ! (c - 1) else 0)"

definition conv_at :: "tensor3 \<Rightarrow> real \<Rightarrow> tensor3 \<Rightarrow> nat \<Rightarrow> nat \<Rightarrow> real" where
  "conv_at w b e i j =
     b + sum_list (map (\<lambda>c. sum_list (map (\<lambda>a. sum_list (map (\<lambda>d.
           w ! c ! a ! d * pad_get (e ! c) (2 * i + a) (2 * j + d)) [0..<3])) [0..<3]))
         [0..<length e])"

definition conv_out_size :: "nat \<Rightarrow> nat" where
  "conv_out_size l = (l + 2 * 1 - 3) div 2 + 1"

definition Conv2d_forward :: "Conv2d \<Rightarrow> tensor4 \<Rightarrow> error + tensor4" where
  "Conv2d_forward cv x =
     (if \<not> list_all (\<lambda>e. length e = in_channels cv) x then Inl RuntimeError
      else if extent2 x = 0 \<or> extent3 x = 0 then Inl RuntimeError
      else Inr (map (\<lambda>e. map (\<lambda>k. map (\<lambda>i. map (\<lambda>j.
                  conv_at (conv_weight cv ! k) (conv_bias cv ! k) e i j)
                  [0..<conv_out_size (extent3 x)])
                  [0..<conv_out_size (extent2 x)])
                  [0..<out_channels cv]) x))"

text \<open>
  \<^verbatim>\<open>nn.BatchNorm2d\<close> (eps \<open>10\<^sup>-\<^sup>5\<close>, momentum 0.1). In training mode the layer first
  counts the batch, refuses a batch with one value per channel, normalises every channel
  with the mean and the (biased) variance of its values over the whole batch, and moves
  the running statistics towards those of the batch (with the unbiased variance). In
  evaluation mode it normalises with the running statistics and writes nothing.
\<close>

definition bn_eps :: real where
  "bn_eps = 1 / 100000"

definition bn_momentum :: real where
  "bn_momentum = 1 / 10"

definition channel_vals :: "tensor4 \<Rightarrow> nat \<Rightarrow> tensor1" where
  "channel_vals x c = concat (map (\<lambda>e. concat (e ! c)) x)"

definition batch_mean :: "tensor4 \<Rightarrow> nat \<Rightarrow> real" where
  "batch_mean x c = sum_list (channel_vals x c) / real (length x * extent2 x * extent3 x)"

definition batch_var :: "tensor4 \<Rightarrow> nat \<Rightarrow> real" where
  "batch_var x c =
     sum_list (map (\<lambda>v. (v - batch_mean x c)\<^sup>2) (channel_vals x c))
       / real (length x * extent2 x * extent3 x)"

definition normalize :: "BatchNorm2d \<Rightarrow> (nat \<Rightarrow> real) \<Rightarrow> (nat \<Rightarrow> real) \<Rightarrow> tensor4 \<Rightarrow> tensor4" where
  "normalize bn mu var x =
     map (\<lambda>e. map (\<lambda>c. map (map (\<lambda>v.
            (v - mu c) / sqrt (var c + bn_eps) * bn_weight bn ! c + bn_bias bn ! c)) (e ! c))
          [0..<length e]) x"

definition BatchNorm2d_forward :: "BatchNorm2d \<Rightarrow> tensor4 \<Rightarrow> (error + tensor4) \<times> BatchNorm2d" where
  "BatchNorm2d_forward bn x =
     (if training bn then
        (let bn1 = bn\<lparr>num_batches_tracked := num_batches_tracked bn + 1\<rparr>;
             M = length x * extent2 x * extent3 x
         in if M = 1 then (Inl ValueError, bn1)
            else if \<not> list_all (\<lambda>e. length e = num_features bn) x then (Inl RuntimeError, bn1)
            else (Inr (normalize bn (batch_mean x) (batch_var x) x),
                  bn1\<lparr>running_mean :=
                         map (\<lambda>c. (1 - bn_momentum) * running_mean bn ! c
                                   + bn_momentum * batch_mean x c) [0..<num_features bn],
                       running_var :=
                         map (\<lambda>c. (1 - bn_momentum) * running_var bn ! c
                                   + bn_momentum * (batch_var x c * real M / (real M - 1)))
                             [0..<num_features bn]\<rparr>))
      else if \<not> list_all (\<lambda>e. length e = num_features bn) x then (Inl RuntimeError, bn)
      else (Inr (normalize bn (\<lambda>c. running_mean bn ! c) (\<lambda>c. running_var bn ! c) x), bn))"

definition relu :: "tensor4 \<Rightarrow> tensor4" where
  "relu x = map (map (map (map (\<lambda>v. max 0 v)))) x"

text \<open>
  The loop \<^verbatim>\<open>for conv, bn in zip(self.convs, self.bns)\<close>. The batch-norm layers are
  returned as the loop leaves them; an exception keeps what was written before it.
\<close>

fun conv_stack ::
  "Conv2d list \<Rightarrow> BatchNorm2d list \<Rightarrow> tensor4 \<Rightarrow> (error + tensor4) \<times> BatchNorm2d list" where
  "conv_stack (cv # cvs) (bn # bs) out =
     (case Conv2d_forward cv out of
        Inl e \<Rightarrow> (Inl e, bn # bs)
      | Inr o1 \<Rightarrow>
          (case BatchNorm2d_forward bn o1 of
             (Inl e, bn') \<Rightarrow> (Inl e, bn' # bs)
           | (Inr o2, bn') \<Rightarrow>
               (case conv_stack cvs bs (relu o2) of (r, bs') \<Rightarrow> (r, bn' # bs'))))"
| "conv_stack [] bs out = (Inr out, bs)"
| "conv_stack cvs [] out = (Inr out, [])"

text \<open>
  \<^verbatim>\<open>out.transpose(1,2)\<close> and \<^verbatim>\<open>out.contiguous().view(N, T, -1)\<close>: [N, C, T, W] becomes
  [N, T, C * W]. The view is refused when \<open>N * T = 0\<close>.
\<close>

definition time_major :: "tensor4 \<Rightarrow> error + tensor3" where
  "time_major out =
     (if out = [] \<or> extent2 out = 0 then Inl RuntimeError
      else Inr (map (\<lambda>e. map (\<lambda>t. concat (map (\<lambda>ch. ch ! t) e)) [0..<extent2 out]) out))"

text \<open>
  \<^verbatim>\<open>len(self)\<close>: the class \<^verbatim>\<open>ReferenceEncoder\<close> defines no \<^verbatim>\<open>__len__\<close>, and neither
  does \<^verbatim>\<open>nn.Module\<close>, so the built-in raises TypeError.
\<close>

definition len_ReferenceEncoder :: "ReferenceEncoder \<Rightarrow> error + nat" where
  "len_ReferenceEncoder self = Inl TypeError"

text \<open>
  \<^verbatim>\<open>pack_padded_sequence(out, lengths, batch_first=True, enforce_sorted=False)\<close>: one
  length for each example, each at least 1 and at most the padded length; the packed
  sequence holds the first \<open>length\<close> steps of each example, in the order of the batch.
\<close>

definition pack_padded_sequence :: "tensor3 \<Rightarrow> int list \<Rightarrow> error + tensor3" where
  "pack_padded_sequence out lens =
     (if length lens \<noteq> length out \<or> \<not> list_all (\<lambda>l. 1 \<le> l \<and> l \<le> int (extent1 out)) lens
      then Inl RuntimeError
      else Inr (map2 (\<lambda>l e. take (nat l) e) lens out))"

text \<open>
  \<^verbatim>\<open>nn.GRU\<close> from the zero state: for each example the cell is folded over its steps,
  and the final hidden states [1, N, hidden] are returned. A step of another width than
  \<^verbatim>\<open>input_size\<close> is refused.
\<close>

definition sigmoid :: "real \<Rightarrow> real" where
  "sigmoid x = 1 / (1 + exp (- x))"

definition GRU_cell :: "GRU \<Rightarrow> tensor1 \<Rightarrow> tensor1 \<Rightarrow> tensor1" where
  "GRU_cell g h x =
     (let H = hidden_size g;
          gi = (\<lambda>k. dot (weight_ih g ! k) x + bias_ih g ! k);
          gh = (\<lambda>k. dot (weight_hh g ! k) h + bias_hh g ! k)
      in map (\<lambda>k.
           let r = sigmoid (gi k + gh k);
               z = sigmoid (gi (H + k) + gh (H + k));
               n = tanh (gi (2 * H + k) + r * gh (2 * H + k))
           in (1 - z) * n + z * h ! k) [0..<H])"

definition GRU_forward :: "GRU \<Rightarrow> tensor3 \<Rightarrow> error + tensor3" where
  "GRU_forward g x =
     (if list_all (list_all (\<lambda>v. length v = input_size g)) x
      then Inr [map (\<lambda>e. foldl (GRU_cell g) (replicate (hidden_size g) 0) e) x]
      else Inl RuntimeError)"

definition encoder_tail ::
  "ReferenceEncoder \<Rightarrow> tensor4 \<Rightarrow> int list option \<Rightarrow> error + tensor2" where
  "encoder_tail self out input_lengths =
     bind (time_major out) (\<lambda>out.
     bind (case input_lengths of
             None \<Rightarrow> Inr out
           | Some lens \<Rightarrow>
               bind (len_ReferenceEncoder self) (\<lambda>n.
               pack_padded_sequence out (map (\<lambda>l. \<lceil>of_int l / (2::real) ^ n\<rceil>) lens)))
          (\<lambda>out.
     bind (GRU_forward (gru self) out) (\<lambda>out.
     Inr (squeeze0 out))))"

definition ReferenceEncoder_forward ::
  "ReferenceEncoder \<Rightarrow> tensor3 \<Rightarrow> int list option \<Rightarrow> (error + tensor2) \<times> ReferenceEncoder" where
  "ReferenceEncoder_forward self inputs input_lengths =
     (case view_N_1_mel (enc_n_mel_channels self) inputs of
        Inl e \<Rightarrow> (Inl e, self)
      | Inr out \<Rightarrow>
          (case conv_stack (convs self) (bns self) out of
             (r, bs) \<Rightarrow>
               (bind r (\<lambda>out. encoder_tail self out input_lengths), self\<lparr>bns := bs\<rparr>)))"

subsection \<open>GST\<close>

record GST =
  encoder :: ReferenceEncoder
  stl :: STL

definition GST_init :: "seed \<Rightarrow> hparams \<Rightarrow> error + GST" where
  "GST_init s hp =
     bind (ReferenceEncoder_init (sub s 0) hp) (\<lambda>enc.
     bind (STL_init (sub s 1) hp) (\<lambda>st.
     Inr \<lparr>encoder = enc, stl = st\<rparr>))"

definition GST_forward ::
  "GST \<Rightarrow> tensor3 \<Rightarrow> int list option \<Rightarrow> (error + tensor3) \<times> GST" where
  "GST_forward self inputs input_lengths =
     (case ReferenceEncoder_forward (encoder self) inputs input_lengths of
        (enc_out, enc) \<Rightarrow>
          (bind enc_out (\<lambda>v. STL_forward (stl self) v), self\<lparr>encoder := enc\<rparr>))"

subsection \<open>Learned parameters and concrete configurations\<close>

text \<open>
  The learned parameters of the model (the \<^verbatim>\<open>nn.Parameter\<close>s): the weights and biases
  of the convolutions, the scale and shift of each batch normalisation, the weights of the
  recurrent unit, the token bank and the three projections. The running statistics of a
  batch normalisation are buffers, not parameters.
\<close>

definition bn_parameters :: "BatchNorm2d \<Rightarrow> tensor1 \<times> tensor1" where
  "bn_parameters bn = (bn_weight bn, bn_bias bn)"

definition parameters ::
  "GST \<Rightarrow> Conv2d list \<times> (tensor1 \<times> tensor1) list \<times> GRU \<times> tensor2 \<times> Linear \<times> Linear \<times> Linear" where
  "parameters g =
     (convs (encoder g), map bn_parameters (bns (encoder g)), gru (encoder g),
      embed (stl g), W_query (attention (stl g)), W_key (attention (stl g)),
      W_value (attention (stl g)))"

text \<open>The configuration of the scenario of the specification.\<close>

definition scenario :: hparams where
  "scenario = \<lparr>ref_enc_filters = [32, 32, 64, 64, 128, 128], n_mel_channels = 80,
                ref_enc_gru_size = 128, token_num = 10, token_embedding_size = 256,
                num_heads = 8\<rparr>"

text \<open>
  A small configuration, and the encoder its constructor builds when every drawn value
  is 0.
\<close>

definition zero_seed :: seed where
  "zero_seed = (\<lambda>idx. 0)"

definition tiny :: hparams where
  "tiny = \<lparr>ref_enc_filters = [1], n_mel_channels = 1, ref_enc_gru_size = 1, token_num = 2,
            token_embedding_size = 2, num_heads = 2\<rparr>"

definition tiny_encoder :: ReferenceEncoder where
  "tiny_encoder =
     \<lparr>convs = [\<lparr>in_channels = 1, out_channels = 1,
                conv_weight = [[[[0, 0, 0], [0, 0, 0], [0, 0, 0]]]], conv_bias = [0]\<rparr>],
      bns = [\<lparr>num_features = 1, bn_weight = [1], bn_bias = [0], running_mean = [0],
              running_var = [1], num_batches_tracked = 0, training = True\<rparr>],
      gru = \<lparr>input_size = 1, hidden_size = 1, weight_ih = [[0], [0], [0]],
              weight_hh = [[0], [0], [0]], bias_ih = [0, 0, 0], bias_hh = [0, 0, 0]\<rparr>,
      enc_n_mel_channels = 1, enc_ref_enc_gru_size = 1\<rparr>"

text \<open>The full model of the small configuration, every drawn value 0.\<close>

definition tiny_gst :: GST where
  "tiny_gst =
     \<lparr>encoder = tiny_encoder,
      stl = \<lparr>embed = [[0], [0]],
             attention = \<lparr>num_units = 2, mha_num_heads = 2, key_dim = 1,
               W_query = \<lparr>in_features = 1, out_features = 2, lin_weight = [[0], [0]]\<rparr>,
               W_key = \<lparr>in_features = 1, out_features = 2, lin_weight = [[0], [0]]\<rparr>,
               W_value = \<lparr>in_features = 1, out_features = 2, lin_weight = [[0], [0]]\<rparr>\<rparr>\<rparr>\<rparr>"

text \<open>
  The scenario with \<^verbatim>\<open>token_embedding_size=250\<close>, which \<^verbatim>\<open>num_heads=8\<close> does not
  divide.
\<close>

definition scenario_250 :: hparams where
  "scenario_250 = scenario\<lparr>token_embedding_size := 250\<rparr>"

text \<open>The small configuration with two mel channels.\<close>

definition tiny_mel2 :: hparams where
  "tiny_mel2 = tiny\<lparr>n_mel_channels := 2\<rparr>"

subsection \<open>Vocabulary of the properties\<close>

text \<open>
  A nested list is a tensor of given extents when it is rectangular. A linear layer is
  well formed when its weight has the extents its fields state, and an attention block
  when its three projections are well formed and end in \<^verbatim>\<open>num_units\<close> features, the
  number of heads is positive and divides \<^verbatim>\<open>num_units\<close>: what the constructors
  establish for a configuration in which \<^verbatim>\<open>num_heads\<close> divides
  \<^verbatim>\<open>token_embedding_size\<close>.

  \<open>project\<close> is the result of a linear layer on an input it accepts, \<open>head_chunk d h\<close>
  the slice \<open>[h * d, (h + 1) * d)\<close> of the feature axis, \<open>head_scores\<close> the scaled dot
  products of each head and \<open>head_outputs\<close> the sums of the values of each head under
  given weights.
\<close>

definition is_tensor2 :: "'a list list \<Rightarrow> nat \<Rightarrow> nat \<Rightarrow> bool" where
  "is_tensor2 x a b = (length x = a \<and> list_all (\<lambda>r. length r = b) x)"

definition is_tensor3 :: "'a list list list \<Rightarrow> nat \<Rightarrow> nat \<Rightarrow> nat \<Rightarrow> bool" where
  "is_tensor3 x a b c = (length x = a \<and> list_all (\<lambda>e. is_tensor2 e b c) x)"

definition is_tensor4 :: "'a list list list list \<Rightarrow> nat \<Rightarrow> nat \<Rightarrow> nat \<Rightarrow> nat \<Rightarrow> bool" where
  "is_tensor4 x a b c d = (length x = a \<and> list_all (\<lambda>e. is_tensor3 e b c d) x)"

definition wf_Linear :: "Linear \<Rightarrow> bool" where
  "wf_Linear l = is_tensor2 (lin_weight l) (out_features l) (in_features l)"

definition wf_MultiHeadAttention :: "MultiHeadAttention \<Rightarrow> bool" where
  "wf_MultiHeadAttention m =
     (wf_Linear (W_query m) \<and> wf_Linear (W_key m) \<and> wf_Linear (W_value m)
      \<and> int (out_features (W_query m)) = num_units m
      \<and> int (out_features (W_key m)) = num_units m
      \<and> int (out_features (W_value m)) = num_units m
      \<and> in_features (W_value m) = in_features (W_key m)
      \<and> 0 < mha_num_heads m \<and> mha_num_heads m dvd num_units m \<and> 0 < num_units m)"

definition project :: "Linear \<Rightarrow> tensor3 \<Rightarrow> tensor3" where
  "project l x = map (map (\<lambda>v. map (\<lambda>w. dot v w) (lin_weight l))) x"

definition head_chunk :: "nat \<Rightarrow> nat \<Rightarrow> tensor3 \<Rightarrow> tensor3" where
  "head_chunk d h y = map (map (\<lambda>v. take d (drop (h * d) v))) y"

definition heads_of :: "MultiHeadAttention \<Rightarrow> Linear \<Rightarrow> tensor3 \<Rightarrow> tensor4" where
  "heads_of m w x =
     map (\<lambda>h. head_chunk (nat (num_units m div mha_num_heads m)) h (project w x))
       [0..<nat (mha_num_heads m)]"

definition head_scores :: "int \<Rightarrow> tensor4 \<Rightarrow> tensor4 \<Rightarrow> tensor4" where
  "head_scores kd querys keys =
     map2 (map2 (\<lambda>q k. map (\<lambda>r. map (\<lambda>c. dot r c / sqrt (of_int kd)) k) q)) querys keys"

definition head_outputs :: "tensor4 \<Rightarrow> tensor4 \<Rightarrow> tensor4" where
  "head_outputs weights vals =
     map2 (map2 (\<lambda>w v. map (\<lambda>r. map (\<lambda>c. dot r c) (transpose_last2 v)) w)) weights vals"

text \<open>
  The convolutions and batch normalisations of an encoder form a chain from \<open>c\<close>
  channels when each convolution takes the channels the one before it produces (the first
  one \<open>c\<close>), produces at least one, and is followed by a normalisation of as many
  features: what the constructor builds from positive filter counts.
\<close>

fun chain_ok :: "nat \<Rightarrow> Conv2d list \<Rightarrow> BatchNorm2d list \<Rightarrow> bool" where
  "chain_ok c [] [] = True"
| "chain_ok c (cv # cvs) (bn # bs) =
     (in_channels cv = c \<and> num_features bn = out_channels cv \<and> 0 < out_channels cv
      \<and> chain_ok (out_channels cv) cvs bs)"
| "chain_ok c cvs bs = False"

definition final_channels :: "nat \<Rightarrow> Conv2d list \<Rightarrow> nat" where
  "final_channels c cvs = (if cvs = [] then c else out_channels (last cvs))"

text \<open>
  An attention block with two heads of one feature each whose \<^verbatim>\<open>key_dim\<close> is 4.
\<close>

definition attention_example :: MultiHeadAttention where
  "attention_example =
     \<lparr>num_units = 2, mha_num_heads = 2, key_dim = 4,
      W_query = \<lparr>in_features = 1, out_features = 2, lin_weight = [[1], [2]]\<rparr>,
      W_key = \<lparr>in_features = 4, out_features = 2, lin_weight = [[1, 0, 0, 0], [0, 1, 0, 0]]\<rparr>,
      W_value = \<lparr>in_features = 4, out_features = 2, lin_weight = [[0, 0, 1, 0], [0, 0, 0, 1]]\<rparr>\<rparr>"

section \<open>Properties\<close>

subsection \<open>calculate_channels\<close>

lemma ceil_half_step:
  "\<lceil>of_int ((L - 3 + 2 * 1) div 2 + 1) / (2::real) ^ n\<rceil> = \<lceil>of_int L / (2::real) ^ Suc n\<rceil>"
proof -
  have a: "(L - 3 + 2 * 1) div 2 + 1 = - ((- L) div 2)" by presburger
  have "\<lceil>of_int (- ((- L) div 2)) / (2::real) ^ n\<rceil>
        = \<lceil>of_int (- ((- L) div 2)) / real_of_int (2 ^ n)\<rceil>" by simp
  also have "\<dots> = - ((- L) div 2 div 2 ^ n)"
    by (simp only: ceiling_divide_eq_div) simp
  also have "\<dots> = - ((- L) div (2 * 2 ^ n))"
    by (simp add: zdiv_zmult2_eq)
  also have "\<dots> = \<lceil>of_int L / real_of_int (2 * 2 ^ n)\<rceil>"
    by (simp only: ceiling_divide_eq_div)
  finally show ?thesis using a by simp
qed

lemma calculate_channels_loop_ceil:
  "calculate_channels_loop n L 3 2 1 = Inr \<lceil>of_int L / (2::real) ^ n\<rceil>"
proof (induction n arbitrary: L)
  case 0
  show ?case by simp
next
  case (Suc n)
  have "calculate_channels_loop (Suc n) L 3 2 1
        = calculate_channels_loop n ((L - 3 + 2 * 1) div 2 + 1) 3 2 1"
    by simp
  also have "\<dots> = Inr \<lceil>of_int ((L - 3 + 2 * 1) div 2 + 1) / (2::real) ^ n\<rceil>"
    by (rule Suc.IH)
  also have "\<dots> = Inr \<lceil>of_int L / (2::real) ^ Suc n\<rceil>"
    by (simp only: ceil_half_step)
  finally show ?case .
qed

lemma calculate_channels_loop_funpow:
  "calculate_channels_loop n L 3 2 1 = Inr (((\<lambda>l. (l - 3 + 2) div 2 + 1) ^^ n) L)"
proof (induction n arbitrary: L)
  case 0
  show ?case by simp
next
  case (Suc n)
  define f where "f = (\<lambda>l::int. (l - 3 + 2) div 2 + 1)"
  have "calculate_channels_loop (Suc n) L 3 2 1 = calculate_channels_loop n (f L) 3 2 1"
    by (simp add: f_def)
  also have "\<dots> = Inr ((f ^^ n) (f L))"
    unfolding f_def by (rule Suc.IH)
  also have "(f ^^ n) (f L) = (f ^^ Suc n) L"
    by (simp only: funpow_Suc_right o_apply)
  finally show ?case unfolding f_def .
qed

text \<open>
  C10. For every integer \<open>L \<ge> 1\<close> and every integer \<open>n \<ge> 0\<close>,
  \<^verbatim>\<open>calculate_channels(L, kernel_size=3, stride=2, pad=1, n_convs=n)\<close> returns (the function
  is total, and the result is no exception) exactly the ceiling of \<open>L / 2 ^ n\<close>.
\<close>

theorem calculate_channels_ceiling:
  assumes "1 \<le> L" and "0 \<le> n"
  shows "calculate_channels L 3 2 1 n = Inr \<lceil>of_int L / (2::real) ^ nat n\<rceil>"
  unfolding calculate_channels_def by (rule calculate_channels_loop_ceil)

theorem calculate_channels_ceiling_witness:
  "(1::int) \<le> 80 \<and> (0::int) \<le> 6 \<and> calculate_channels 80 3 2 1 6 = Inr 2"
proof -
  have "calculate_channels 80 3 2 1 6 = Inr \<lceil>of_int 80 / (2::real) ^ nat 6\<rceil>"
    by (rule calculate_channels_ceiling) simp_all
  moreover have "\<lceil>of_int 80 / (2::real) ^ nat 6\<rceil> = 2"
    by (simp add: eval_nat_numeral ceiling_eq_iff)
  ultimately show ?thesis by simp
qed

subsection \<open>Evaluation of concrete configurations\<close>

lemmas init_defs = ReferenceEncoder_init_def Conv2d_init_def BatchNorm2d_init_def GRU_init_def
  Linear_init_def MultiHeadAttention_init_def STL_init_def GST_init_def
  calculate_channels_def py_last_def py_floordiv_def bind_def
  tensor1_of_def tensor2_of_def tensor3_of_def tensor4_of_def sub_def zero_seed_def

lemmas encoder_defs = ReferenceEncoder_forward_def view_N_1_mel_def rows_of_def
  Conv2d_forward_def conv_at_def pad_get_def conv_out_size_def extent1_def extent2_def extent3_def
  BatchNorm2d_forward_def normalize_def batch_mean_def batch_var_def channel_vals_def
  bn_eps_def bn_momentum_def relu_def encoder_tail_def time_major_def len_ReferenceEncoder_def
  pack_padded_sequence_def GRU_forward_def GRU_cell_def sigmoid_def dot_def bind_def

lemma upt3: "[0..<3] = [0, 1, 2]"
  by (simp add: upt_rec)

lemma tiny_encoder_init: "ReferenceEncoder_init zero_seed tiny = Inr tiny_encoder"
  by (simp add: init_defs tiny_def tiny_encoder_def Let_def upt3)

lemma collect_Inr_all:
  "(\<And>r. r \<in> set rs \<Longrightarrow> \<exists>v. r = Inr v) \<Longrightarrow> \<exists>vs. collect rs = Inr vs"
proof (induction rs)
  case Nil
  show ?case by simp
next
  case (Cons r rs)
  then obtain v where "r = Inr v" by auto
  moreover from Cons obtain vs where "collect rs = Inr vs" by auto
  ultimately show ?case by simp
qed

lemma scenario_encoder_init: "\<exists>enc. ReferenceEncoder_init s scenario = Inr enc"
proof -
  have "\<exists>cs. collect (map (\<lambda>i. Conv2d_init (sub (sub s 0) i) ((1 # ref_enc_filters scenario) ! i)
             ((1 # ref_enc_filters scenario) ! (i + 1)))
           [0..<length (ref_enc_filters scenario)]) = Inr cs"
    by (rule collect_Inr_all)
       (auto simp: scenario_def Conv2d_init_def nth_Cons split: nat.splits)
  moreover have "\<exists>bs. collect (map (\<lambda>i. BatchNorm2d_init (ref_enc_filters scenario ! i))
             [0..<length (ref_enc_filters scenario)]) = Inr bs"
    by (rule collect_Inr_all)
       (auto simp: scenario_def BatchNorm2d_init_def nth_Cons split: nat.splits)
  moreover have "calculate_channels (n_mel_channels scenario) 3 2 1
                   (int (length (ref_enc_filters scenario))) = Inr 2"
    by (simp add: scenario_def calculate_channels_def eval_nat_numeral)
  ultimately show ?thesis
    by (auto simp: ReferenceEncoder_init_def Let_def py_last_def GRU_init_def scenario_def)
qed

subsection \<open>The forward pass and the parameters\<close>

lemma BatchNorm2d_forward_parameters:
  "bn_parameters (snd (BatchNorm2d_forward bn x)) = bn_parameters bn"
  by (simp add: BatchNorm2d_forward_def bn_parameters_def Let_def)

lemma conv_stack_parameters:
  "map bn_parameters (snd (conv_stack cvs bs x)) = map bn_parameters bs"
proof (induction cvs bs x rule: conv_stack.induct)
  case (1 cv cvs bn bs out)
  show ?case
  proof (cases "Conv2d_forward cv out")
    case (Inl e)
    then show ?thesis by simp
  next
    case (Inr o1)
    obtain r bn' where f: "BatchNorm2d_forward bn o1 = (r, bn')"
      by (cases "BatchNorm2d_forward bn o1")
    have p: "bn_parameters bn' = bn_parameters bn"
      using BatchNorm2d_forward_parameters [of bn o1] f by simp
    show ?thesis
    proof (cases r)
      case (Inl e)
      with Inr f p show ?thesis by simp
    next
      case (Inr o2)
      have "map bn_parameters (snd (conv_stack cvs bs (relu o2))) = map bn_parameters bs"
        using "1.IH" \<open>Conv2d_forward cv out = Inr o1\<close> f Inr by simp
      with \<open>Conv2d_forward cv out = Inr o1\<close> f p Inr
      show ?thesis by (auto split: prod.splits)
    qed
  qed
qed simp_all

lemma ReferenceEncoder_forward_frame:
  "convs (snd (ReferenceEncoder_forward enc x ls)) = convs enc
   \<and> gru (snd (ReferenceEncoder_forward enc x ls)) = gru enc
   \<and> map bn_parameters (bns (snd (ReferenceEncoder_forward enc x ls)))
       = map bn_parameters (bns enc)"
proof (cases "view_N_1_mel (enc_n_mel_channels enc) x")
  case (Inl e)
  then show ?thesis by (simp add: ReferenceEncoder_forward_def)
next
  case (Inr out)
  obtain r bs where c: "conv_stack (convs enc) (bns enc) out = (r, bs)"
    by (cases "conv_stack (convs enc) (bns enc) out")
  have "map bn_parameters bs = map bn_parameters (bns enc)"
    using conv_stack_parameters [of "convs enc" "bns enc" out] c by simp
  with Inr c show ?thesis by (simp add: ReferenceEncoder_forward_def)
qed

text \<open>
  The forward pass does write: in training mode a batch normalisation counts the batch and
  moves its running statistics, also when the call ends in an exception.
\<close>

lemma forward_writes_buffers:
  "map num_batches_tracked (bns (snd (ReferenceEncoder_forward tiny_encoder [[[1]], [[1]]] None)))
   = [1]
   \<and> map num_batches_tracked (bns tiny_encoder) = [0]"
  by (simp add: encoder_defs tiny_encoder_def Let_def upt3)

text \<open>
  C9. A forward pass leaves every learned parameter unchanged: for every model, input and
  lengths argument, the parameters after \<^verbatim>\<open>GST.forward\<close> (token bank, projection
  weights, and those of the encoder) are those before it, whether the call returns a value
  or raises.
\<close>

theorem GST_forward_parameters_unchanged:
  "parameters (snd (GST_forward g x ls)) = parameters g"
proof -
  obtain r enc' where f: "ReferenceEncoder_forward (encoder g) x ls = (r, enc')"
    by (cases "ReferenceEncoder_forward (encoder g) x ls")
  from ReferenceEncoder_forward_frame [of "encoder g" x ls] f
  show ?thesis by (simp add: GST_forward_def parameters_def)
qed

subsection \<open>The width of the recurrent unit\<close>

lemma GRU_init_input_size:
  "GRU_init s a b = Inr g \<Longrightarrow> int (input_size g) = a"
  by (auto simp: GRU_init_def split: if_splits)

text \<open>
  C6. When the constructor of \<^verbatim>\<open>ReferenceEncoder\<close> returns, the input width of its
  recurrent unit is the last configured filter count times \<open>L_final\<close>, where \<open>L_final\<close>
  is \<open>L := floor((L - 3 + 2) / 2) + 1\<close> iterated \<open>K\<close> times from \<^verbatim>\<open>n_mel_channels\<close>
  (\<open>K\<close> the number of filters); a forward call leaves the recurrent unit, and so this
  width, as the constructor set it.
\<close>

theorem ReferenceEncoder_init_gru_width:
  assumes "ReferenceEncoder_init s hp = Inr enc"
  shows "int (input_size (gru enc))
           = last (ref_enc_filters hp)
             * ((\<lambda>l. (l - 3 + 2) div 2 + 1) ^^ length (ref_enc_filters hp)) (n_mel_channels hp)
         \<and> gru (snd (ReferenceEncoder_forward enc x ls)) = gru enc"
proof -
  let ?K = "length (ref_enc_filters hp)"
  let ?L = "((\<lambda>l. (l - 3 + 2) div 2 + 1) ^^ ?K) (n_mel_channels hp)"
  have cc: "calculate_channels (n_mel_channels hp) 3 2 1 (int ?K) = Inr ?L"
    by (simp add: calculate_channels_def calculate_channels_loop_funpow)
  from assms obtain g where
    g: "GRU_init (sub s 1) (last (ref_enc_filters hp) * ?L) (ref_enc_gru_size hp) = Inr g"
    and e: "gru enc = g"
    unfolding ReferenceEncoder_init_def Let_def cc py_last_def
    by (auto split: sum.splits if_splits)
  from GRU_init_input_size [OF g] e
  show ?thesis by (simp add: ReferenceEncoder_forward_frame)
qed

theorem ReferenceEncoder_init_gru_width_witness:
  "\<not> isl (ReferenceEncoder_init zero_seed scenario)
   \<and> input_size (gru (projr (ReferenceEncoder_init zero_seed scenario))) = 256
   \<and> gru (snd (ReferenceEncoder_forward (projr (ReferenceEncoder_init zero_seed scenario))
              [[[1]]] None))
       = gru (projr (ReferenceEncoder_init zero_seed scenario))"
proof -
  obtain enc where e: "ReferenceEncoder_init zero_seed scenario = Inr enc"
    using scenario_encoder_init by blast
  have "int (input_size (gru enc)) = 256
        \<and> gru (snd (ReferenceEncoder_forward enc [[[1]]] None)) = gru enc"
    using ReferenceEncoder_init_gru_width [OF e, of "[[[1]]]" None]
    by (simp add: scenario_def eval_nat_numeral)
  with e show ?thesis by simp
qed

subsection \<open>The lengths argument\<close>

lemma encoder_tail_lengths_raise:
  "\<exists>e. encoder_tail enc out (Some lens) = Inl e"
  by (cases "time_major out") (simp_all add: encoder_tail_def bind_def len_ReferenceEncoder_def)

text \<open>
  A call of \<^verbatim>\<open>ReferenceEncoder.forward\<close> (and so of \<^verbatim>\<open>GST.forward\<close>) with a lengths
  vector never returns a value.
\<close>

lemma ReferenceEncoder_forward_lengths_raise:
  "\<exists>e. fst (ReferenceEncoder_forward enc x (Some lens)) = Inl e"
proof (cases "view_N_1_mel (enc_n_mel_channels enc) x")
  case (Inl e)
  then show ?thesis by (simp add: ReferenceEncoder_forward_def)
next
  case (Inr out)
  obtain r bs where c: "conv_stack (convs enc) (bns enc) out = (r, bs)"
    by (cases "conv_stack (convs enc) (bns enc) out")
  show ?thesis
  proof (cases r)
    case (Inl e)
    with Inr c show ?thesis by (simp add: ReferenceEncoder_forward_def bind_def)
  next
    case (Inr o2)
    with \<open>view_N_1_mel (enc_n_mel_channels enc) x = Inr out\<close> c
      encoder_tail_lengths_raise [of enc o2 lens]
    show ?thesis by (simp add: ReferenceEncoder_forward_def bind_def)
  qed
qed

text \<open>
  C3 (the code departs from the claim). With the encoder of the small configuration, a
  batch of two examples of one frame each and the lengths 1 and 1, the call raises
  TypeError at \<^verbatim>\<open>len(self)\<close>: no length is transformed and nothing is packed.
\<close>

theorem ReferenceEncoder_forward_lengths_TypeError:
  "fst (ReferenceEncoder_forward (projr (ReferenceEncoder_init zero_seed tiny))
          [[[1]], [[1]]] (Some [1, 1])) = Inl TypeError"
  by (simp add: tiny_encoder_init) (simp add: encoder_defs tiny_encoder_def Let_def upt3)

subsection \<open>Tensors of given extents through the attention block\<close>

lemma is_tensor2_length: "is_tensor2 x a b \<Longrightarrow> length x = a"
  by (simp add: is_tensor2_def)

lemma is_tensor3_length: "is_tensor3 x a b c \<Longrightarrow> length x = a"
  by (simp add: is_tensor3_def)

lemma is_tensor4_length: "is_tensor4 x a b c d \<Longrightarrow> length x = a"
  by (simp add: is_tensor4_def)

lemma is_tensor2_nth: "is_tensor2 x a b \<Longrightarrow> i < a \<Longrightarrow> length (x ! i) = b"
  by (simp add: is_tensor2_def list_all_length)

lemma is_tensor3_nth: "is_tensor3 x a b c \<Longrightarrow> i < a \<Longrightarrow> is_tensor2 (x ! i) b c"
  by (simp add: is_tensor3_def list_all_length)

lemma is_tensor4_nth: "is_tensor4 x a b c d \<Longrightarrow> i < a \<Longrightarrow> is_tensor3 (x ! i) b c d"
  by (simp add: is_tensor4_def list_all_length)

lemma is_tensor2_set: "is_tensor2 x a b \<Longrightarrow> r \<in> set x \<Longrightarrow> length r = b"
  by (simp add: is_tensor2_def list_all_iff)

lemma is_tensor3_set: "is_tensor3 x a b c \<Longrightarrow> e \<in> set x \<Longrightarrow> is_tensor2 e b c"
  by (simp add: is_tensor3_def list_all_iff)

lemma is_tensor4_set: "is_tensor4 x a b c d \<Longrightarrow> e \<in> set x \<Longrightarrow> is_tensor3 e b c d"
  by (simp add: is_tensor4_def list_all_iff)

lemma is_tensor2_map:
  "(\<And>r. r \<in> set x \<Longrightarrow> length (f r) = b) \<Longrightarrow> is_tensor2 (map f x) (length x) b"
  by (simp add: is_tensor2_def list_all_iff)

lemma is_tensor3_map:
  "(\<And>e. e \<in> set x \<Longrightarrow> is_tensor2 (f e) b c) \<Longrightarrow> is_tensor3 (map f x) (length x) b c"
  by (simp add: is_tensor3_def list_all_iff)

lemma is_tensor4_map:
  "(\<And>e. e \<in> set x \<Longrightarrow> is_tensor3 (f e) b c d) \<Longrightarrow> is_tensor4 (map f x) (length x) b c d"
  by (simp add: is_tensor4_def list_all_iff)

lemma Linear_forward_tensor:
  assumes "is_tensor3 x N T (in_features l)"
  shows "Linear_forward l x = Inr (map (map (\<lambda>v. map (\<lambda>w. dot v w) (lin_weight l))) x)"
proof -
  have "list_all (list_all (\<lambda>v. length v = in_features l)) x"
    using assms by (auto simp: is_tensor3_def is_tensor2_def list_all_iff)
  then show ?thesis by (simp add: Linear_forward_def)
qed

lemma Linear_out_tensor:
  assumes "is_tensor3 x N T k" and "length (lin_weight l) = U"
  shows "is_tensor3 (map (map (\<lambda>v. map (\<lambda>w. dot v w) (lin_weight l))) x) N T U"
  using assms by (auto simp: is_tensor3_def is_tensor2_def list_all_iff)

lemma num_splits_exact: "0 < d \<Longrightarrow> 0 < H \<Longrightarrow> num_splits (H * d) d = H"
proof -
  assume d: "0 < d" and H: "0 < H"
  have "(H * d + d - 1) div d = H"
  proof -
    have "H * d + d - 1 = H * d + (d - 1)" using d by simp
    moreover have "(H * d + (d - 1)) div d = H + (d - 1) div d"
      using d by (simp only: div_mult_self3)
    moreover have "(d - 1) div d = 0" using d by simp
    ultimately show ?thesis by simp
  qed
  then show ?thesis using H by (simp add: num_splits_def)
qed

lemma head_chunk_tensor:
  assumes "is_tensor3 y N T (H * d)" and "h < H"
  shows "is_tensor3 (head_chunk d h y) N T d"
proof -
  have "Suc h * d \<le> H * d" using assms(2) by (intro mult_le_mono1) simp
  then have *: "min (H * d - h * d) d = d" by simp
  from assms(1) show ?thesis
    by (auto simp: head_chunk_def is_tensor3_def is_tensor2_def list_all_iff *)
qed

lemma extents3_tensor: "is_tensor3 y N T d \<Longrightarrow> extents3 y = replicate N (replicate T d)"
  by (auto simp: extents3_def is_tensor3_def is_tensor2_def list_all_iff
      intro!: replicate_eqI)

lemma torch_stack_same:
  assumes "cs \<noteq> []" and "\<And>c. c \<in> set cs \<Longrightarrow> extents3 c = e"
  shows "torch_stack cs = Inr cs"
proof (cases cs)
  case Nil
  with assms(1) show ?thesis by simp
next
  case (Cons c cs')
  then have "list_all (\<lambda>d. extents3 d = extents3 c) cs"
    using assms(2) by (simp add: list_all_iff)
  with Cons show ?thesis by (simp add: torch_stack_def)
qed

lemma split_stack_tensor:
  assumes y: "is_tensor3 y N T (H * d)" and d: "0 < d" and H: "0 < H"
  shows "bind (torch_split_last (H * d) y (int d)) torch_stack
         = Inr (map (\<lambda>h. head_chunk d h y) [0..<H])"
proof -
  have s: "torch_split_last (H * d) y (int d) = Inr (map (\<lambda>h. head_chunk d h y) [0..<H])"
    using d H by (simp add: torch_split_last_def num_splits_exact head_chunk_def)
  have "torch_stack (map (\<lambda>h. head_chunk d h y) [0..<H]) = Inr (map (\<lambda>h. head_chunk d h y) [0..<H])"
  proof (rule torch_stack_same)
    show "map (\<lambda>h. head_chunk d h y) [0..<H] \<noteq> []" using H by simp
  next
    fix c assume "c \<in> set (map (\<lambda>h. head_chunk d h y) [0..<H])"
    then obtain h where "h < H" and "c = head_chunk d h y" by auto
    then show "extents3 c = replicate N (replicate T d)"
      using extents3_tensor [OF head_chunk_tensor [OF y]] by simp
  qed
  with s show ?thesis by (simp add: bind_def)
qed

lemma transpose_last2_tensor:
  assumes "is_tensor2 x a b" and "0 < a"
  shows "transpose_last2 x = map (\<lambda>j. map (\<lambda>row. row ! j) x) [0..<b]"
proof (cases x)
  case Nil
  with assms show ?thesis by (simp add: is_tensor2_def)
next
  case (Cons r rs)
  with assms(1) have "length r = b" by (simp add: is_tensor2_def)
  with Cons show ?thesis by (simp add: transpose_last2_def)
qed

lemma transpose_last2_is_tensor:
  assumes "is_tensor2 x a b" and "0 < a"
  shows "is_tensor2 (transpose_last2 x) b a"
  using assms by (simp add: transpose_last2_tensor [OF assms] is_tensor2_def list_all_iff)

lemma transpose_last2_twice:
  assumes "is_tensor2 x a b" and "0 < a" and "0 < b"
  shows "transpose_last2 (transpose_last2 x) = x"
proof -
  define y where "y = transpose_last2 x"
  have ty: "y = map (\<lambda>j. map (\<lambda>row. row ! j) x) [0..<b]"
    unfolding y_def by (rule transpose_last2_tensor [OF assms(1,2)])
  have t: "transpose_last2 y = map (\<lambda>j. map (\<lambda>row. row ! j) y) [0..<a]"
    unfolding y_def
    by (rule transpose_last2_tensor [OF transpose_last2_is_tensor [OF assms(1,2)] assms(3)])
  have lx: "length x = a" using assms(1) by (simp add: is_tensor2_def)
  have "transpose_last2 y = x"
  proof (rule nth_equalityI)
    show "length (transpose_last2 y) = length x"
      by (simp add: t lx)
  next
    fix i assume "i < length (transpose_last2 y)"
    then have i: "i < a" by (simp add: t)
    have li: "length (x ! i) = b" by (rule is_tensor2_nth [OF assms(1) i])
    have "transpose_last2 y ! i = map (\<lambda>row. row ! i) y"
      using i by (simp add: t)
    also have "\<dots> = map (\<lambda>j. x ! i ! j) [0..<b]"
      using i lx by (simp add: ty o_def)
    also have "\<dots> = x ! i" using map_nth [of "x ! i"] li by simp
    finally show "transpose_last2 y ! i = x ! i" .
  qed
  then show ?thesis by (simp add: y_def)
qed

lemma matmul_tensor:
  assumes "is_tensor2 a m k" and "length b = k"
  shows "matmul a b = Inr (map (\<lambda>r. map (\<lambda>c. dot r c) (transpose_last2 b)) a)"
  using assms by (simp add: matmul_def is_tensor2_def)

lemma collect_map_Inr:
  "(\<And>x. x \<in> set xs \<Longrightarrow> f x = Inr (g x)) \<Longrightarrow> collect (map f xs) = Inr (map g xs)"
  by (induction xs) simp_all

lemma broadcast2_same:
  assumes "length xs = length ys"
    and "\<And>x y. (x, y) \<in> set (zip xs ys) \<Longrightarrow> f x y = Inr (g x y)"
  shows "broadcast2 f xs ys = Inr (map2 g xs ys)"
proof -
  have "collect (map (\<lambda>(x, y). f x y) (zip xs ys)) = Inr (map (\<lambda>(x, y). g x y) (zip xs ys))"
    by (rule collect_map_Inr) (use assms(2) in auto)
  with assms(1) show ?thesis by (simp add: broadcast2_def)
qed

lemma matmul4_tensor:
  assumes a: "is_tensor4 a H N m k" and b: "is_tensor4 b H N k n"
  shows "matmul4 a b
         = Inr (map2 (map2 (\<lambda>p q. map (\<lambda>r. map (\<lambda>c. dot r c) (transpose_last2 q)) p)) a b)"
  unfolding matmul4_def
proof (rule broadcast2_same)
  show "length a = length b" using a b by (simp add: is_tensor4_def)
next
  fix x y assume xy: "(x, y) \<in> set (zip a b)"
  then have x: "is_tensor3 x N m k" and y: "is_tensor3 y N k n"
    using a b set_zip_leftD [OF xy] set_zip_rightD [OF xy]
    by (auto simp: is_tensor4_def list_all_iff)
  show "broadcast2 matmul x y
        = Inr (map2 (\<lambda>p q. map (\<lambda>r. map (\<lambda>c. dot r c) (transpose_last2 q)) p) x y)"
  proof (rule broadcast2_same)
    show "length x = length y" using x y by (simp add: is_tensor3_def)
  next
    fix p q assume pq: "(p, q) \<in> set (zip x y)"
    then have "is_tensor2 p m k" and "is_tensor2 q k n"
      using x y set_zip_leftD [OF pq] set_zip_rightD [OF pq]
      by (auto simp: is_tensor3_def list_all_iff)
    then show "matmul p q = Inr (map (\<lambda>r. map (\<lambda>c. dot r c) (transpose_last2 q)) p)"
      by (intro matmul_tensor) (simp_all add: is_tensor2_def)
  qed
qed

lemma project_tensor:
  assumes "is_tensor3 x N T k" and "wf_Linear l"
  shows "is_tensor3 (project l x) N T (out_features l)"
  using assms
  by (auto simp: project_def wf_Linear_def is_tensor3_def is_tensor2_def list_all_iff)

lemma split_heads_tensor:
  assumes wf: "wf_Linear w" and u: "int (out_features w) = num_units m"
    and h: "0 < mha_num_heads m" and dv: "mha_num_heads m dvd num_units m"
    and pos: "0 < num_units m" and x: "is_tensor3 x N T (in_features w)"
  shows "split_heads m w x = Inr (heads_of m w x)"
    and "is_tensor4 (heads_of m w x) (nat (mha_num_heads m)) N T
           (nat (num_units m div mha_num_heads m))"
proof -
  define H where "H = nat (mha_num_heads m)"
  define d where "d = nat (num_units m div mha_num_heads m)"
  have H: "0 < H" using h by (simp add: H_def)
  have q: "num_units m = mha_num_heads m * (num_units m div mha_num_heads m)"
    using dv by simp
  have dpos: "0 < num_units m div mha_num_heads m"
    using h pos dv by (metis q zero_less_mult_pos)
  then have d: "0 < d" by (simp add: d_def)
  have "int (H * d) = num_units m"
    using h dpos q by (simp add: H_def d_def)
  then have U: "out_features w = H * d" using u by linarith
  have y: "is_tensor3 (project w x) N T (H * d)"
    using project_tensor [OF x wf] U by simp
  have "Linear_forward w x = Inr (project w x)"
    using Linear_forward_tensor [OF x] by (simp add: project_def)
  moreover have "py_floordiv (num_units m) (mha_num_heads m) = Inr (int d)"
    using h dpos by (simp add: py_floordiv_def d_def)
  ultimately show "split_heads m w x = Inr (heads_of m w x)"
    using split_stack_tensor [OF y d H]
    by (simp add: split_heads_def bind_def U heads_of_def H_def [symmetric] d_def [symmetric])
  show "is_tensor4 (heads_of m w x) (nat (mha_num_heads m)) N T
          (nat (num_units m div mha_num_heads m))"
    using head_chunk_tensor [OF y]
    by (simp add: heads_of_def H_def [symmetric] d_def [symmetric] is_tensor4_def list_all_iff)
qed

lemma map2_nth:
  "i < length xs \<Longrightarrow> i < length ys \<Longrightarrow> map2 f xs ys ! i = f (xs ! i) (ys ! i)"
  by simp

lemma merge_heads_tensor:
  assumes out: "is_tensor4 out H N T d" and H: "0 < H"
  shows "merge_heads out
         = Inr (map (\<lambda>n. map (\<lambda>t. concat (map (\<lambda>h. out ! h ! n ! t) [0..<H])) [0..<T]) [0..<N])"
proof -
  obtain o1 os where o: "out = o1 # os"
    using out H by (cases out) (auto simp: is_tensor4_def)
  have lo: "length out = H" using out by (simp add: is_tensor4_def)
  have o1: "is_tensor3 o1 N T d" using out o by (simp add: is_tensor4_def)
  have sp: "torch_split0_1 out = map (\<lambda>c. [c]) out"
    using o by (simp add: torch_split0_1_def)
  have ext: "map length c = replicate N T" if "c \<in> set out" for c
    using is_tensor4_set [OF out that]
    by (auto simp: is_tensor3_def is_tensor2_def list_all_iff intro!: replicate_eqI)
  have chk: "list_all (\<lambda>d. map (map length) d = map (map length) [o1]) (map (\<lambda>c. [c]) out)"
    using ext o by (simp add: list_all_iff)
  have l1: "length o1 = N" using o1 by (simp add: is_tensor3_def)
  have l2: "length (o1 ! n) = T" if "n < N" for n
    using is_tensor3_nth [OF o1 that] by (simp add: is_tensor2_def)
  have cat: "torch_cat3 (map (\<lambda>c. [c]) out)
        = Inr [map (\<lambda>n. map (\<lambda>t. concat (map (\<lambda>d. d ! 0 ! n ! t) (map (\<lambda>c. [c]) out)))
                           [0..<length (o1 ! n)]) [0..<length o1]]"
    using chk by (simp add: torch_cat3_def o)
  have cc: "concat (map (\<lambda>d. d ! 0 ! n ! t) (map (\<lambda>c. [c]) out))
            = concat (map (\<lambda>h. out ! h ! n ! t) [0..<H])" for n t
  proof -
    have "map (\<lambda>d. d ! 0 ! n ! t) (map (\<lambda>c. [c]) out) = map (\<lambda>c. c ! n ! t) out"
      by simp
    also have "\<dots> = map (\<lambda>h. out ! h ! n ! t) [0..<H]"
      using lo by (intro nth_equalityI) simp_all
    finally show ?thesis by simp
  qed
  have "merge_heads out
        = Inr (map (\<lambda>n. map (\<lambda>t. concat (map (\<lambda>h. out ! h ! n ! t) [0..<H]))
                          [0..<length (o1 ! n)]) [0..<length o1])"
    by (simp add: merge_heads_def sp cat bind_def cc [unfolded map_map])
  also have "map (\<lambda>n. map (\<lambda>t. concat (map (\<lambda>h. out ! h ! n ! t) [0..<H]))
                          [0..<length (o1 ! n)]) [0..<length o1]
             = map (\<lambda>n. map (\<lambda>t. concat (map (\<lambda>h. out ! h ! n ! t) [0..<H])) [0..<T]) [0..<N]"
    using l1 l2 by simp
  finally show ?thesis .
qed

lemma concat_chunk:
  assumes "\<And>h. h < H \<Longrightarrow> length (f h) = d" and "h < H"
  shows "take d (drop (h * d) (concat (map f [0..<H]))) = f h"
  using assms
proof (induction H arbitrary: h)
  case 0
  then show ?case by simp
next
  case (Suc H)
  have len: "length (concat (map f [0..<H])) = H * d"
    using Suc.prems(1) by (induction H) simp_all
  show ?case
  proof (cases "h < H")
    case True
    have "Suc h * d \<le> H * d" using True by (intro mult_le_mono1) simp
    then have "h * d + d \<le> H * d" by simp
    with True Suc show ?thesis by (simp add: len)
  next
    case False
    with Suc.prems have "h = H" by simp
    with Suc.prems show ?thesis by (simp add: len)
  qed
qed

lemma map2_cong_nth:
  assumes "length xs = length ys" and "length xs = length zs"
    and "\<And>i. i < length xs \<Longrightarrow> f (xs ! i) (ys ! i) = g (xs ! i) (zs ! i)"
  shows "map2 f xs ys = map2 g xs zs"
  using assms by (intro nth_equalityI) simp_all

lemma attention_scores_tensor:
  assumes qs: "is_tensor4 querys H N Tq d" and ks: "is_tensor4 keys H N Tk d"
    and tk: "0 < Tk" and d: "0 < d" and kd: "0 \<le> kd"
  shows "attention_scores kd querys keys = Inr (head_scores kd querys keys)"
proof -
  have kt: "is_tensor4 (map (map transpose_last2) keys) H N d Tk"
    using ks tk
    by (auto simp: is_tensor4_def is_tensor3_def list_all_iff intro: transpose_last2_is_tensor)
  have lq: "length querys = H" and lk: "length keys = H"
    using qs ks by (simp_all add: is_tensor4_def)
  have "matmul4 querys (map (map transpose_last2) keys)
        = Inr (map2 (map2 (\<lambda>p q. map (\<lambda>r. map (\<lambda>c. dot r c) (transpose_last2 q)) p))
                 querys (map (map transpose_last2) keys))"
    by (rule matmul4_tensor [OF qs kt])
  also have "map2 (map2 (\<lambda>p q. map (\<lambda>r. map (\<lambda>c. dot r c) (transpose_last2 q)) p))
                 querys (map (map transpose_last2) keys)
             = map2 (map2 (\<lambda>p k. map (\<lambda>r. map (\<lambda>c. dot r c) k) p)) querys keys"
  proof (rule map2_cong_nth)
    fix h assume "h < length querys"
    then have h: "h < H" using lq by simp
    have q3: "is_tensor3 (querys ! h) N Tq d" by (rule is_tensor4_nth [OF qs h])
    have k3: "is_tensor3 (keys ! h) N Tk d" by (rule is_tensor4_nth [OF ks h])
    have "map2 (\<lambda>p q. map (\<lambda>r. map (\<lambda>c. dot r c) (transpose_last2 q)) p) (querys ! h)
            (map transpose_last2 (keys ! h))
          = map2 (\<lambda>p k. map (\<lambda>r. map (\<lambda>c. dot r c) k) p) (querys ! h) (keys ! h)"
    proof (rule map2_cong_nth)
      fix n assume "n < length (querys ! h)"
      then have n: "n < N" using q3 by (simp add: is_tensor3_def)
      have "transpose_last2 (transpose_last2 (keys ! h ! n)) = keys ! h ! n"
        by (rule transpose_last2_twice [OF is_tensor3_nth [OF k3 n] tk d])
      then show "map (\<lambda>r. map (\<lambda>c. dot r c) (transpose_last2 (map transpose_last2 (keys ! h) ! n)))
                   (querys ! h ! n)
                 = map (\<lambda>r. map (\<lambda>c. dot r c) (keys ! h ! n)) (querys ! h ! n)"
        using n k3 by (simp add: is_tensor3_def)
    qed (use q3 k3 in \<open>simp_all add: is_tensor3_def\<close>)
    then show "map2 (\<lambda>p q. map (\<lambda>r. map (\<lambda>c. dot r c) (transpose_last2 q)) p) (querys ! h)
                 (map (map transpose_last2) keys ! h)
               = map2 (\<lambda>p k. map (\<lambda>r. map (\<lambda>c. dot r c) k) p) (querys ! h) (keys ! h)"
      using h lk by simp
  qed (simp_all add: lq lk)
  finally have "matmul4 querys (map (map transpose_last2) keys)
        = Inr (map2 (map2 (\<lambda>p k. map (\<lambda>r. map (\<lambda>c. dot r c) k) p)) querys keys)" .
  moreover have "map (map (map (map (\<lambda>x. x / sqrt (real_of_int kd)))))
                   (map2 (map2 (\<lambda>p k. map (\<lambda>r. map (\<lambda>c. dot r c) k) p)) querys keys)
                 = head_scores kd querys keys"
    unfolding head_scores_def
    by (intro nth_equalityI) (simp_all add: o_def split_def)
  ultimately show ?thesis
    using kd by (simp add: attention_scores_def bind_def)
qed

lemma head_scores_nth:
  assumes qs: "is_tensor4 querys H N Tq d" and ks: "is_tensor4 keys H N Tk d"
    and "h < H" and "n < N" and "i < Tq" and "j < Tk"
  shows "head_scores kd querys keys ! h ! n ! i ! j
         = dot (querys ! h ! n ! i) (keys ! h ! n ! j) / sqrt (of_int kd)"
proof -
  have q3: "is_tensor3 (querys ! h) N Tq d" by (rule is_tensor4_nth [OF qs \<open>h < H\<close>])
  have k3: "is_tensor3 (keys ! h) N Tk d" by (rule is_tensor4_nth [OF ks \<open>h < H\<close>])
  have q2: "is_tensor2 (querys ! h ! n) Tq d" by (rule is_tensor3_nth [OF q3 \<open>n < N\<close>])
  have k2: "is_tensor2 (keys ! h ! n) Tk d" by (rule is_tensor3_nth [OF k3 \<open>n < N\<close>])
  show ?thesis
    using assms(3-) qs ks q3 k3 q2 k2
    by (simp add: head_scores_def is_tensor4_def is_tensor3_def is_tensor2_def)
qed

lemma head_scores_tensor:
  assumes qs: "is_tensor4 querys H N Tq d" and ks: "is_tensor4 keys H N Tk d"
  shows "is_tensor4 (head_scores kd querys keys) H N Tq Tk"
proof -
  have "is_tensor3 c N Tq Tk" if "c \<in> set (head_scores kd querys keys)" for c
  proof -
    from that obtain q k where qk: "(q, k) \<in> set (zip querys keys)"
      and c: "c = map2 (\<lambda>q k. map (\<lambda>r. map (\<lambda>c. dot r c / sqrt (of_int kd)) k) q) q k"
      by (auto simp: head_scores_def)
    have q: "is_tensor3 q N Tq d" and k: "is_tensor3 k N Tk d"
      using qs ks set_zip_leftD [OF qk] set_zip_rightD [OF qk]
      by (auto simp: is_tensor4_def list_all_iff)
    have "is_tensor2 e Tq Tk" if "e \<in> set c" for e
    proof -
      from that obtain q' k' where qk': "(q', k') \<in> set (zip q k)"
        and e: "e = map (\<lambda>r. map (\<lambda>c. dot r c / sqrt (of_int kd)) k') q'"
        by (auto simp: c)
      have "is_tensor2 q' Tq d" and "is_tensor2 k' Tk d"
        using q k set_zip_leftD [OF qk'] set_zip_rightD [OF qk']
        by (auto simp: is_tensor3_def list_all_iff)
      then show ?thesis by (simp add: e is_tensor2_def list_all_iff)
    qed
    moreover have "length c = N" using q k by (simp add: c is_tensor3_def)
    ultimately show ?thesis by (simp add: is_tensor3_def list_all_iff)
  qed
  moreover have "length (head_scores kd querys keys) = H"
    using qs ks by (simp add: head_scores_def is_tensor4_def)
  ultimately show ?thesis by (simp add: is_tensor4_def list_all_iff)
qed

lemma attention_weights_tensor:
  assumes "is_tensor4 scores H N Tq Tk"
  shows "is_tensor4 (attention_weights scores) H N Tq Tk"
  using assms
  by (auto simp: attention_weights_def softmax_def is_tensor4_def is_tensor3_def is_tensor2_def
      list_all_iff)

lemma attention_weights_nth:
  assumes sc: "is_tensor4 scores H N Tq Tk" and "h < H" and "n < N" and "i < Tq"
  shows "attention_weights scores ! h ! n ! i = softmax (scores ! h ! n ! i)"
proof -
  have s3: "is_tensor3 (scores ! h) N Tq Tk" by (rule is_tensor4_nth [OF sc \<open>h < H\<close>])
  have s2: "is_tensor2 (scores ! h ! n) Tq Tk" by (rule is_tensor3_nth [OF s3 \<open>n < N\<close>])
  show ?thesis
    using assms(2-) sc s3 s2
    by (simp add: attention_weights_def is_tensor4_def is_tensor3_def is_tensor2_def)
qed

lemma dot_sum_nth:
  assumes "length a = n" and "length b = n"
  shows "dot a b = sum_list (map (\<lambda>j. a ! j * b ! j) [0..<n])"
proof -
  have "map2 (*) a b = map (\<lambda>j. a ! j * b ! j) [0..<n]"
    using assms by (intro nth_equalityI) simp_all
  then show ?thesis by (simp add: dot_def)
qed

lemma head_outputs_nth:
  assumes w: "is_tensor4 weights H N Tq Tk" and v: "is_tensor4 vals H N Tk d"
    and tk: "0 < Tk" and "h < H" and "n < N" and "i < Tq"
  shows "head_outputs weights vals ! h ! n ! i
         = map (\<lambda>c. sum_list (map (\<lambda>j. weights ! h ! n ! i ! j * vals ! h ! n ! j ! c) [0..<Tk]))
             [0..<d]"
proof -
  have w3: "is_tensor3 (weights ! h) N Tq Tk" by (rule is_tensor4_nth [OF w \<open>h < H\<close>])
  have v3: "is_tensor3 (vals ! h) N Tk d" by (rule is_tensor4_nth [OF v \<open>h < H\<close>])
  have w2: "is_tensor2 (weights ! h ! n) Tq Tk" by (rule is_tensor3_nth [OF w3 \<open>n < N\<close>])
  have v2: "is_tensor2 (vals ! h ! n) Tk d" by (rule is_tensor3_nth [OF v3 \<open>n < N\<close>])
  have lw: "length (weights ! h ! n ! i) = Tk" by (rule is_tensor2_nth [OF w2 \<open>i < Tq\<close>])
  have "head_outputs weights vals ! h ! n ! i
        = map (\<lambda>c. dot (weights ! h ! n ! i) c) (transpose_last2 (vals ! h ! n))"
    using assms(4-) w v w3 v3 w2 v2
    by (simp add: head_outputs_def is_tensor4_def is_tensor3_def is_tensor2_def)
  also have "\<dots> = map (\<lambda>c. dot (weights ! h ! n ! i) (map (\<lambda>row. row ! c) (vals ! h ! n))) [0..<d]"
    by (simp add: transpose_last2_tensor [OF v2 tk] o_def)
  also have "\<dots> = map (\<lambda>c. sum_list (map (\<lambda>j. weights ! h ! n ! i ! j * vals ! h ! n ! j ! c)
                                          [0..<Tk])) [0..<d]"
  proof -
    have "dot (weights ! h ! n ! i) (map (\<lambda>row. row ! c) (vals ! h ! n))
          = sum_list (map (\<lambda>j. weights ! h ! n ! i ! j * vals ! h ! n ! j ! c) [0..<Tk])" for c
    proof -
      have lv: "length (vals ! h ! n) = Tk" using v2 by (simp add: is_tensor2_def)
      have "dot (weights ! h ! n ! i) (map (\<lambda>row. row ! c) (vals ! h ! n))
            = sum_list (map (\<lambda>j. weights ! h ! n ! i ! j * map (\<lambda>row. row ! c) (vals ! h ! n) ! j)
                         [0..<Tk])"
        by (rule dot_sum_nth) (simp_all add: lw lv)
      also have "\<dots> = sum_list (map (\<lambda>j. weights ! h ! n ! i ! j * vals ! h ! n ! j ! c) [0..<Tk])"
        by (rule arg_cong [where f = sum_list]) (simp add: lv)
      finally show ?thesis .
    qed
    then show ?thesis by simp
  qed
  finally show ?thesis .
qed

lemma head_outputs_tensor:
  assumes w: "is_tensor4 weights H N Tq Tk" and v: "is_tensor4 vals H N Tk d" and tk: "0 < Tk"
  shows "is_tensor4 (head_outputs weights vals) H N Tq d"
proof -
  have lw: "length weights = H" and lv: "length vals = H"
    using w v by (simp_all add: is_tensor4_def)
  have "is_tensor3 (head_outputs weights vals ! h) N Tq d" if h: "h < H" for h
  proof -
    have w3: "is_tensor3 (weights ! h) N Tq Tk" by (rule is_tensor4_nth [OF w h])
    have v3: "is_tensor3 (vals ! h) N Tk d" by (rule is_tensor4_nth [OF v h])
    have lw3: "length (weights ! h) = N" and lv3: "length (vals ! h) = N"
      using w3 v3 by (simp_all add: is_tensor3_def)
    have "is_tensor2 (head_outputs weights vals ! h ! n) Tq d" if n: "n < N" for n
    proof -
      have w2: "is_tensor2 (weights ! h ! n) Tq Tk" by (rule is_tensor3_nth [OF w3 n])
      have "length (head_outputs weights vals ! h ! n ! i) = d" if "i < Tq" for i
        by (simp add: head_outputs_nth [OF w v tk h n that])
      moreover have "length (head_outputs weights vals ! h ! n) = Tq"
        using h n lw lv lw3 lv3 w2 by (simp add: head_outputs_def is_tensor2_def)
      ultimately show ?thesis by (simp add: is_tensor2_def list_all_length)
    qed
    moreover have "length (head_outputs weights vals ! h) = N"
      using h lw lv lw3 lv3 by (simp add: head_outputs_def)
    ultimately show ?thesis by (simp add: is_tensor3_def list_all_length)
  qed
  moreover have "length (head_outputs weights vals) = H"
    using lw lv by (simp add: head_outputs_def)
  ultimately show ?thesis by (simp add: is_tensor4_def list_all_length)
qed

lemma MultiHeadAttention_forward_run:
  assumes wf: "wf_MultiHeadAttention m" and kd: "0 \<le> key_dim m"
    and q: "is_tensor3 query N Tq (in_features (W_query m))"
    and k: "is_tensor3 key N Tk (in_features (W_key m))" and tk: "0 < Tk"
  defines "H \<equiv> nat (mha_num_heads m)" and "d \<equiv> nat (num_units m div mha_num_heads m)"
  defines "querys \<equiv> heads_of m (W_query m) query"
    and "keys \<equiv> heads_of m (W_key m) key"
    and "vals \<equiv> heads_of m (W_value m) key"
  defines "scores \<equiv> head_scores (key_dim m) querys keys"
  defines "out \<equiv> head_outputs (attention_weights scores) vals"
  shows "split_heads m (W_query m) query = Inr querys"
    and "split_heads m (W_key m) key = Inr keys"
    and "split_heads m (W_value m) key = Inr vals"
    and "is_tensor4 querys H N Tq d" and "is_tensor4 keys H N Tk d"
    and "is_tensor4 vals H N Tk d"
    and "attention_scores (key_dim m) querys keys = Inr scores"
    and "is_tensor4 scores H N Tq Tk"
    and "matmul4 (attention_weights scores) vals = Inr out"
    and "is_tensor4 out H N Tq d"
    and "MultiHeadAttention_forward m query key
         = Inr (map (\<lambda>n. map (\<lambda>t. concat (map (\<lambda>h. out ! h ! n ! t) [0..<H])) [0..<Tq]) [0..<N])"
    and "0 < H" and "0 < d" and "int (H * d) = num_units m"
proof -
  from wf have wq: "wf_Linear (W_query m)" and wk: "wf_Linear (W_key m)"
    and wv: "wf_Linear (W_value m)"
    and uq: "int (out_features (W_query m)) = num_units m"
    and uk: "int (out_features (W_key m)) = num_units m"
    and uv: "int (out_features (W_value m)) = num_units m"
    and iv: "in_features (W_value m) = in_features (W_key m)"
    and h: "0 < mha_num_heads m" and dv: "mha_num_heads m dvd num_units m"
    and pos: "0 < num_units m"
    by (simp_all add: wf_MultiHeadAttention_def)
  show H: "0 < H" using h by (simp add: H_def)
  have qq: "num_units m = mha_num_heads m * (num_units m div mha_num_heads m)"
    using dv by simp
  have dpos: "0 < num_units m div mha_num_heads m"
    using h pos dv by (metis qq zero_less_mult_pos)
  then show d: "0 < d" by (simp add: d_def)
  show "int (H * d) = num_units m"
    using h dpos qq by (simp add: H_def d_def)
  have k': "is_tensor3 key N Tk (in_features (W_value m))" using k iv by simp
  show s1: "split_heads m (W_query m) query = Inr querys"
    unfolding querys_def by (rule split_heads_tensor(1) [OF wq uq h dv pos q])
  show s2: "split_heads m (W_key m) key = Inr keys"
    unfolding keys_def by (rule split_heads_tensor(1) [OF wk uk h dv pos k])
  show s3: "split_heads m (W_value m) key = Inr vals"
    unfolding vals_def by (rule split_heads_tensor(1) [OF wv uv h dv pos k'])
  show t1: "is_tensor4 querys H N Tq d"
    unfolding querys_def H_def d_def by (rule split_heads_tensor(2) [OF wq uq h dv pos q])
  show t2: "is_tensor4 keys H N Tk d"
    unfolding keys_def H_def d_def by (rule split_heads_tensor(2) [OF wk uk h dv pos k])
  show t3: "is_tensor4 vals H N Tk d"
    unfolding vals_def H_def d_def by (rule split_heads_tensor(2) [OF wv uv h dv pos k'])
  show sc: "attention_scores (key_dim m) querys keys = Inr scores"
    unfolding scores_def by (rule attention_scores_tensor [OF t1 t2 tk d kd])
  show t4: "is_tensor4 scores H N Tq Tk"
    unfolding scores_def by (rule head_scores_tensor [OF t1 t2])
  have t5: "is_tensor4 (attention_weights scores) H N Tq Tk"
    by (rule attention_weights_tensor [OF t4])
  show mm: "matmul4 (attention_weights scores) vals = Inr out"
    unfolding out_def head_outputs_def by (rule matmul4_tensor [OF t5 t3])
  show t6: "is_tensor4 out H N Tq d"
    unfolding out_def by (rule head_outputs_tensor [OF t5 t3 tk])
  show "MultiHeadAttention_forward m query key
         = Inr (map (\<lambda>n. map (\<lambda>t. concat (map (\<lambda>h. out ! h ! n ! t) [0..<H])) [0..<Tq]) [0..<N])"
    using merge_heads_tensor [OF t6 H]
    by (simp add: MultiHeadAttention_forward_def s1 s2 s3 sc mm bind_def)
qed

lemma STL_init_key_dim:
  assumes "STL_init s hp = Inr tok"
  shows "key_dim (attention tok) = token_embedding_size hp div num_heads hp"
  using assms
  by (auto simp: STL_init_def MultiHeadAttention_init_def Linear_init_def bind_def
      py_floordiv_def Let_def split: if_splits sum.splits)

text \<open>
  C5. In \<^verbatim>\<open>MultiHeadAttention.forward\<close>, for every head \<open>h\<close> (and batch entry \<open>n\<close>,
  query position \<open>i\<close>, key position \<open>j\<close>) the raw score is the dot product of the
  head's query and key vectors divided by the square root of \<^verbatim>\<open>key_dim\<close>, the field the
  constructor received (from \<^verbatim>\<open>STL\<close>: \<^verbatim>\<open>token_embedding_size // num_heads\<close>), whatever
  \<^verbatim>\<open>num_units / num_heads\<close> is; the softmax is taken over the key positions, and its
  result weights the values of the head. Stated for a well-formed block with a positive
  \<^verbatim>\<open>key_dim\<close>, a query [N, Tq, query_dim] and keys [N, Tk, key features] with
  \<open>Tk > 0\<close>.
\<close>

theorem attention_scaled_by_key_dim:
  assumes wf: "wf_MultiHeadAttention m" and kd: "0 < key_dim m"
    and q: "is_tensor3 query N Tq (in_features (W_query m))"
    and k: "is_tensor3 key N Tk (in_features (W_key m))" and tk: "0 < Tk"
  shows "\<exists>querys keys vals scores out.
           split_heads m (W_query m) query = Inr querys
         \<and> split_heads m (W_key m) key = Inr keys
         \<and> split_heads m (W_value m) key = Inr vals
         \<and> attention_scores (key_dim m) querys keys = Inr scores
         \<and> (\<forall>h < nat (mha_num_heads m). \<forall>n < N. \<forall>i < Tq. \<forall>j < Tk.
               scores ! h ! n ! i ! j
               = dot (querys ! h ! n ! i) (keys ! h ! n ! j) / sqrt (of_int (key_dim m)))
         \<and> matmul4 (attention_weights scores) vals = Inr out
         \<and> (\<forall>h < nat (mha_num_heads m). \<forall>n < N. \<forall>i < Tq.
               attention_weights scores ! h ! n ! i = softmax (scores ! h ! n ! i)
             \<and> out ! h ! n ! i
               = map (\<lambda>c. sum_list (map (\<lambda>j. softmax (scores ! h ! n ! i) ! j * vals ! h ! n ! j ! c)
                                        [0..<Tk]))
                   [0..<nat (num_units m div mha_num_heads m)])
         \<and> MultiHeadAttention_forward m query key = merge_heads out
         \<and> (STL_init s hp = Inr tok
              \<longrightarrow> key_dim (attention tok) = token_embedding_size hp div num_heads hp)"
proof -
  have kd0: "0 \<le> key_dim m" using kd by simp
  note run = MultiHeadAttention_forward_run [OF wf kd0 q k tk]
  let ?H = "nat (mha_num_heads m)"
  let ?scores = "head_scores (key_dim m) (heads_of m (W_query m) query) (heads_of m (W_key m) key)"
  let ?out = "head_outputs (attention_weights ?scores) (heads_of m (W_value m) key)"
  have a: "\<forall>h < ?H. \<forall>n < N. \<forall>i < Tq. \<forall>j < Tk.
             ?scores ! h ! n ! i ! j
             = dot (heads_of m (W_query m) query ! h ! n ! i) (heads_of m (W_key m) key ! h ! n ! j)
               / sqrt (of_int (key_dim m))"
    using head_scores_nth [OF run(4) run(5)] by blast
  have b: "\<forall>h < ?H. \<forall>n < N. \<forall>i < Tq.
             attention_weights ?scores ! h ! n ! i = softmax (?scores ! h ! n ! i)
           \<and> ?out ! h ! n ! i
             = map (\<lambda>c. sum_list (map (\<lambda>j. softmax (?scores ! h ! n ! i) ! j
                                            * heads_of m (W_value m) key ! h ! n ! j ! c) [0..<Tk]))
                 [0..<nat (num_units m div mha_num_heads m)]"
  proof (intro allI impI)
    fix h n i assume h: "h < ?H" and n: "n < N" and i: "i < Tq"
    have w: "attention_weights ?scores ! h ! n ! i = softmax (?scores ! h ! n ! i)"
      by (rule attention_weights_nth [OF run(8) h n i])
    have "?out ! h ! n ! i
          = map (\<lambda>c. sum_list (map (\<lambda>j. attention_weights ?scores ! h ! n ! i ! j
                                         * heads_of m (W_value m) key ! h ! n ! j ! c) [0..<Tk]))
              [0..<nat (num_units m div mha_num_heads m)]"
      by (rule head_outputs_nth [OF attention_weights_tensor [OF run(8)] run(6) tk h n i])
    with w show "attention_weights ?scores ! h ! n ! i = softmax (?scores ! h ! n ! i)
           \<and> ?out ! h ! n ! i
             = map (\<lambda>c. sum_list (map (\<lambda>j. softmax (?scores ! h ! n ! i) ! j
                                            * heads_of m (W_value m) key ! h ! n ! j ! c) [0..<Tk]))
                 [0..<nat (num_units m div mha_num_heads m)]"
      by simp
  qed
  have c: "MultiHeadAttention_forward m query key = merge_heads ?out"
    by (simp add: MultiHeadAttention_forward_def run(1,2,3,7,9) bind_def)
  from run(1,2,3,7,9) a b c STL_init_key_dim [of s hp tok]
  show ?thesis by blast
qed

lemmas attention_defs = MultiHeadAttention_forward_def split_heads_def Linear_forward_def
  py_floordiv_def torch_split_last_def num_splits_def torch_stack_def extents3_def dot_def
  attention_scores_def matmul4_def broadcast2_def matmul_def transpose_last2_def
  attention_weights_def softmax_def merge_heads_def torch_split0_1_def torch_cat3_def bind_def

lemmas tensor_defs = is_tensor2_def is_tensor3_def is_tensor4_def wf_Linear_def
  wf_MultiHeadAttention_def

lemma attention_example_wf:
  "wf_MultiHeadAttention attention_example \<and> 0 < key_dim attention_example
   \<and> is_tensor3 [[[1::real]]] 1 1 (in_features (W_query attention_example))
   \<and> is_tensor3 [[[2::real, 4, 6, 8]]] 1 1 (in_features (W_key attention_example))"
  by (simp add: tensor_defs attention_example_def)

lemma attention_example_heads:
  "split_heads attention_example (W_query attention_example) [[[1]]] = Inr [[[[1]]], [[[2]]]]"
  "split_heads attention_example (W_key attention_example) [[[2, 4, 6, 8]]] = Inr [[[[2]]], [[[4]]]]"
  "split_heads attention_example (W_value attention_example) [[[2, 4, 6, 8]]] = Inr [[[[6]]], [[[8]]]]"
  by (simp_all add: attention_defs attention_example_def)

theorem attention_scaled_by_key_dim_witness:
  "wf_MultiHeadAttention attention_example \<and> 0 < key_dim attention_example
   \<and> key_dim attention_example \<noteq> num_units attention_example div mha_num_heads attention_example
   \<and> is_tensor3 [[[1::real]]] 1 1 (in_features (W_query attention_example))
   \<and> is_tensor3 [[[2::real, 4, 6, 8]]] 1 1 (in_features (W_key attention_example))
   \<and> (\<exists>scores. attention_scores (key_dim attention_example) [[[[1]]], [[[2]]]] [[[[2]]], [[[4]]]]
                 = Inr scores
         \<and> scores ! 0 ! 0 ! 0 ! 0 = dot [1] [2] / sqrt 4
         \<and> scores ! 1 ! 0 ! 0 ! 0 = dot [2] [4] / sqrt 4)
   \<and> MultiHeadAttention_forward attention_example [[[1]]] [[[2, 4, 6, 8]]] = Inr [[[6, 8]]]
   \<and> \<not> isl (STL_init zero_seed tiny)
   \<and> key_dim (attention (projr (STL_init zero_seed tiny))) = 1"
proof -
  note w = attention_example_wf
  obtain tok where tok: "STL_init zero_seed tiny = Inr tok"
    by (simp add: init_defs tiny_def Let_def)
  have "\<exists>querys keys vals scores out.
           split_heads attention_example (W_query attention_example) [[[1]]] = Inr querys
         \<and> split_heads attention_example (W_key attention_example) [[[2, 4, 6, 8]]] = Inr keys
         \<and> split_heads attention_example (W_value attention_example) [[[2, 4, 6, 8]]] = Inr vals
         \<and> attention_scores (key_dim attention_example) querys keys = Inr scores
         \<and> (\<forall>h < nat (mha_num_heads attention_example). \<forall>n < 1. \<forall>i < 1. \<forall>j < 1.
               scores ! h ! n ! i ! j
               = dot (querys ! h ! n ! i) (keys ! h ! n ! j)
                 / sqrt (of_int (key_dim attention_example)))
         \<and> matmul4 (attention_weights scores) vals = Inr out
         \<and> (\<forall>h < nat (mha_num_heads attention_example). \<forall>n < 1. \<forall>i < 1.
               attention_weights scores ! h ! n ! i = softmax (scores ! h ! n ! i)
             \<and> out ! h ! n ! i
               = map (\<lambda>c. sum_list (map (\<lambda>j. softmax (scores ! h ! n ! i) ! j * vals ! h ! n ! j ! c)
                                        [0..<1]))
                   [0..<nat (num_units attention_example div mha_num_heads attention_example)])
         \<and> MultiHeadAttention_forward attention_example [[[1]]] [[[2, 4, 6, 8]]] = merge_heads out
         \<and> (STL_init zero_seed tiny = Inr tok
              \<longrightarrow> key_dim (attention tok) = token_embedding_size tiny div num_heads tiny)"
    by (rule attention_scaled_by_key_dim) (use w in simp_all)
  then obtain querys keys and vals :: tensor4 and scores and out :: tensor4 where
    "split_heads attention_example (W_query attention_example) [[[1]]] = Inr querys"
    "split_heads attention_example (W_key attention_example) [[[2, 4, 6, 8]]] = Inr keys"
    and sc: "attention_scores (key_dim attention_example) querys keys = Inr scores"
    and f: "\<forall>h < nat (mha_num_heads attention_example). \<forall>n < 1. \<forall>i < 1. \<forall>j < 1.
               scores ! h ! n ! i ! j
               = dot (querys ! h ! n ! i) (keys ! h ! n ! j)
                 / sqrt (of_int (key_dim attention_example))"
    and kd: "STL_init zero_seed tiny = Inr tok
              \<longrightarrow> key_dim (attention tok) = token_embedding_size tiny div num_heads tiny"
    by (elim exE conjE) (rule that)
  then have qs: "querys = [[[[1]]], [[[2]]]]" and ks: "keys = [[[[2]]], [[[4]]]]"
    by (simp_all add: attention_example_heads)
  have "scores ! 0 ! 0 ! 0 ! 0 = dot [1] [2] / sqrt 4"
    using f [rule_format, of 0 0 0 0] by (simp add: qs ks attention_example_def)
  moreover have "scores ! 1 ! 0 ! 0 ! 0 = dot [2] [4] / sqrt 4"
    using f [rule_format, of 1 0 0 0] by (simp add: qs ks attention_example_def)
  moreover have "MultiHeadAttention_forward attention_example [[[1]]] [[[2, 4, 6, 8]]]
                 = Inr [[[6, 8]]]"
    by (simp add: attention_defs attention_example_def)
  moreover have "key_dim attention_example
                 \<noteq> num_units attention_example div mha_num_heads attention_example"
    by (simp add: attention_example_def)
  moreover have "key_dim (attention tok) = 1"
    using kd tok by (simp add: tiny_def)
  ultimately show ?thesis
    using w sc tok by (auto simp: qs ks)
qed

text \<open>
  C7. \<^verbatim>\<open>MultiHeadAttention.forward\<close> splits each projected tensor on its feature axis
  into \<^verbatim>\<open>num_heads\<close> contiguous chunks of \<^verbatim>\<open>num_units / num_heads\<close> features,
  attends per head, and lays the per-head results side by side in head order: the slice
  \<open>[h * d, (h + 1) * d)\<close> of the output is the result of head \<open>h\<close>, and the output is
  a tensor [N, Tq, num_units]. Stated for a well-formed block (\<^verbatim>\<open>num_heads\<close> divides
  \<^verbatim>\<open>num_units\<close>) with a positive \<^verbatim>\<open>key_dim\<close>, a query [N, Tq, query_dim] and keys
  [N, Tk, key features] with \<open>Tk > 0\<close>.
\<close>

theorem heads_concatenated_in_order:
  assumes wf: "wf_MultiHeadAttention m" and kd: "0 < key_dim m"
    and q: "is_tensor3 query N Tq (in_features (W_query m))"
    and k: "is_tensor3 key N Tk (in_features (W_key m))" and tk: "0 < Tk"
  shows "\<exists>pq pk pv querys keys vals scores out y.
           Linear_forward (W_query m) query = Inr pq
         \<and> Linear_forward (W_key m) key = Inr pk
         \<and> Linear_forward (W_value m) key = Inr pv
         \<and> split_heads m (W_query m) query = Inr querys
         \<and> split_heads m (W_key m) key = Inr keys
         \<and> split_heads m (W_value m) key = Inr vals
         \<and> length querys = nat (mha_num_heads m)
         \<and> length keys = nat (mha_num_heads m)
         \<and> length vals = nat (mha_num_heads m)
         \<and> (\<forall>h < nat (mha_num_heads m). \<forall>n < N.
               (\<forall>i < Tq. querys ! h ! n ! i
                  = take (nat (num_units m div mha_num_heads m))
                      (drop (h * nat (num_units m div mha_num_heads m)) (pq ! n ! i)))
             \<and> (\<forall>j < Tk. keys ! h ! n ! j
                  = take (nat (num_units m div mha_num_heads m))
                      (drop (h * nat (num_units m div mha_num_heads m)) (pk ! n ! j))
                \<and> vals ! h ! n ! j
                  = take (nat (num_units m div mha_num_heads m))
                      (drop (h * nat (num_units m div mha_num_heads m)) (pv ! n ! j))))
         \<and> attention_scores (key_dim m) querys keys = Inr scores
         \<and> matmul4 (attention_weights scores) vals = Inr out
         \<and> MultiHeadAttention_forward m query key = Inr y
         \<and> is_tensor3 y N Tq (nat (num_units m))
         \<and> (\<forall>h < nat (mha_num_heads m). \<forall>n < N. \<forall>i < Tq.
               take (nat (num_units m div mha_num_heads m))
                 (drop (h * nat (num_units m div mha_num_heads m)) (y ! n ! i))
               = out ! h ! n ! i)"
proof -
  have kd0: "0 \<le> key_dim m" using kd by simp
  note run = MultiHeadAttention_forward_run [OF wf kd0 q k tk]
  let ?H = "nat (mha_num_heads m)"
  let ?d = "nat (num_units m div mha_num_heads m)"
  let ?querys = "heads_of m (W_query m) query"
  let ?keys = "heads_of m (W_key m) key"
  let ?vals = "heads_of m (W_value m) key"
  let ?scores = "head_scores (key_dim m) ?querys ?keys"
  let ?out = "head_outputs (attention_weights ?scores) ?vals"
  let ?y = "map (\<lambda>n. map (\<lambda>t. concat (map (\<lambda>h. ?out ! h ! n ! t) [0..<?H])) [0..<Tq]) [0..<N]"
  from wf have iv: "in_features (W_value m) = in_features (W_key m)"
    by (simp add: wf_MultiHeadAttention_def)
  have lq: "length query = N" and lk: "length key = N"
    using q k by (simp_all add: is_tensor3_def)
  have lqn: "length (query ! n) = Tq" and lkn: "length (key ! n) = Tk" if "n < N" for n
    using is_tensor3_nth [OF q that] is_tensor3_nth [OF k that] by (simp_all add: is_tensor2_def)
  have p1: "Linear_forward (W_query m) query = Inr (project (W_query m) query)"
    using Linear_forward_tensor [OF q] by (simp add: project_def)
  have p2: "Linear_forward (W_key m) key = Inr (project (W_key m) key)"
    using Linear_forward_tensor [OF k] by (simp add: project_def)
  have p3: "Linear_forward (W_value m) key = Inr (project (W_value m) key)"
    using Linear_forward_tensor [of key N Tk "W_value m"] k iv by (simp add: project_def)
  have ch: "\<forall>h < ?H. \<forall>n < N.
               (\<forall>i < Tq. ?querys ! h ! n ! i
                  = take ?d (drop (h * ?d) (project (W_query m) query ! n ! i)))
             \<and> (\<forall>j < Tk. ?keys ! h ! n ! j = take ?d (drop (h * ?d) (project (W_key m) key ! n ! j))
                \<and> ?vals ! h ! n ! j = take ?d (drop (h * ?d) (project (W_value m) key ! n ! j)))"
    using lq lk lqn lkn by (simp add: heads_of_def head_chunk_def project_def)
  have ln: "length ?querys = ?H" "length ?keys = ?H" "length ?vals = ?H"
    by (simp_all add: heads_of_def)
  have yt: "is_tensor3 ?y N Tq (nat (num_units m))"
  proof -
    have "length (concat (map (\<lambda>h. ?out ! h ! n ! t) [0..<?H])) = ?H * ?d"
      if "n < N" and "t < Tq" for n t
    proof -
      have "length (?out ! h ! n ! t) = ?d" if "h < ?H" for h
        using is_tensor2_nth [OF is_tensor3_nth [OF is_tensor4_nth [OF run(10) that] \<open>n < N\<close>]
            \<open>t < Tq\<close>] .
      then have "map length (map (\<lambda>h. ?out ! h ! n ! t) [0..<?H]) = replicate ?H ?d"
        by (intro replicate_eqI) auto
      then show ?thesis by (simp add: length_concat sum_list_replicate del: map_map)
    qed
    moreover have "nat (num_units m) = ?H * ?d"
      using run(14) by (metis nat_int)
    ultimately show ?thesis
      by (simp add: is_tensor3_def is_tensor2_def list_all_iff)
  qed
  have sl: "\<forall>h < ?H. \<forall>n < N. \<forall>i < Tq. take ?d (drop (h * ?d) (?y ! n ! i)) = ?out ! h ! n ! i"
  proof (intro allI impI)
    fix h n i assume h: "h < ?H" and n: "n < N" and i: "i < Tq"
    have "length (?out ! h' ! n ! i) = ?d" if "h' < ?H" for h'
      using is_tensor2_nth [OF is_tensor3_nth [OF is_tensor4_nth [OF run(10) that] n] i] .
    then have "take ?d (drop (h * ?d) (concat (map (\<lambda>h. ?out ! h ! n ! i) [0..<?H])))
               = ?out ! h ! n ! i"
      using h by (intro concat_chunk [where f = "\<lambda>h. ?out ! h ! n ! i"]) simp_all
    then show "take ?d (drop (h * ?d) (?y ! n ! i)) = ?out ! h ! n ! i"
      using n i by simp
  qed
  from p1 p2 p3 run(1,2,3) ln ch run(7,9,11) yt sl
  show ?thesis by blast
qed

theorem heads_concatenated_in_order_witness:
  "wf_MultiHeadAttention attention_example \<and> 0 < key_dim attention_example
   \<and> is_tensor3 [[[1::real]]] 1 1 (in_features (W_query attention_example))
   \<and> is_tensor3 [[[2::real, 4, 6, 8]]] 1 1 (in_features (W_key attention_example))
   \<and> MultiHeadAttention_forward attention_example [[[1]]] [[[2, 4, 6, 8]]] = Inr [[[6, 8]]]
   \<and> is_tensor3 [[[6::real, 8]]] 1 1 (nat (num_units attention_example))
   \<and> (\<exists>out. matmul4 (attention_weights [[[[1]]], [[[4]]]]) [[[[6]]], [[[8]]]] = Inr out
          \<and> out ! 0 ! 0 ! 0 = [6] \<and> out ! 1 ! 0 ! 0 = [8])
   \<and> take 1 (drop (0 * 1) [6, 8]) = [6::real] \<and> take 1 (drop (1 * 1) [6, 8]) = [8::real]"
proof -
  note w = attention_example_wf
  let ?m = attention_example
  let ?q = "[[[1::real]]]"
  let ?k = "[[[2::real, 4, 6, 8]]]"
  have "\<exists>pq pk pv querys keys vals scores out y.
           Linear_forward (W_query ?m) ?q = Inr pq
         \<and> Linear_forward (W_key ?m) ?k = Inr pk
         \<and> Linear_forward (W_value ?m) ?k = Inr pv
         \<and> split_heads ?m (W_query ?m) ?q = Inr querys
         \<and> split_heads ?m (W_key ?m) ?k = Inr keys
         \<and> split_heads ?m (W_value ?m) ?k = Inr vals
         \<and> length querys = nat (mha_num_heads ?m)
         \<and> length keys = nat (mha_num_heads ?m)
         \<and> length vals = nat (mha_num_heads ?m)
         \<and> (\<forall>h < nat (mha_num_heads ?m). \<forall>n < 1.
               (\<forall>i < 1. querys ! h ! n ! i
                  = take (nat (num_units ?m div mha_num_heads ?m))
                      (drop (h * nat (num_units ?m div mha_num_heads ?m)) (pq ! n ! i)))
             \<and> (\<forall>j < 1. keys ! h ! n ! j
                  = take (nat (num_units ?m div mha_num_heads ?m))
                      (drop (h * nat (num_units ?m div mha_num_heads ?m)) (pk ! n ! j))
                \<and> vals ! h ! n ! j
                  = take (nat (num_units ?m div mha_num_heads ?m))
                      (drop (h * nat (num_units ?m div mha_num_heads ?m)) (pv ! n ! j))))
         \<and> attention_scores (key_dim ?m) querys keys = Inr scores
         \<and> matmul4 (attention_weights scores) vals = Inr out
         \<and> MultiHeadAttention_forward ?m ?q ?k = Inr y
         \<and> is_tensor3 y 1 1 (nat (num_units ?m))
         \<and> (\<forall>h < nat (mha_num_heads ?m). \<forall>n < 1. \<forall>i < 1.
               take (nat (num_units ?m div mha_num_heads ?m))
                 (drop (h * nat (num_units ?m div mha_num_heads ?m)) (y ! n ! i))
               = out ! h ! n ! i)"
    by (rule heads_concatenated_in_order) (use w in simp_all)
  then obtain querys keys vals scores out y where
    qs: "split_heads ?m (W_query ?m) ?q = Inr querys"
    and ks: "split_heads ?m (W_key ?m) ?k = Inr keys"
    and vs: "split_heads ?m (W_value ?m) ?k = Inr vals"
    and sc: "attention_scores (key_dim ?m) querys keys = Inr scores"
    and mm: "matmul4 (attention_weights scores) vals = Inr out"
    and y: "MultiHeadAttention_forward ?m ?q ?k = Inr y"
    and yt: "is_tensor3 y 1 1 (nat (num_units ?m))"
    and sl: "\<forall>h < nat (mha_num_heads ?m). \<forall>n < 1. \<forall>i < 1.
               take (nat (num_units ?m div mha_num_heads ?m))
                 (drop (h * nat (num_units ?m div mha_num_heads ?m)) (y ! n ! i))
               = out ! h ! n ! i"
    by (elim exE conjE) (rule that)
  have fw: "MultiHeadAttention_forward ?m ?q ?k = Inr [[[6, 8]]]"
    by (simp add: attention_defs attention_example_def)
  with y have ye: "y = [[[6, 8]]]" by simp
  have qe: "querys = [[[[1]]], [[[2]]]]" and ke: "keys = [[[[2]]], [[[4]]]]"
    and ve: "vals = [[[[6]]], [[[8]]]]"
    using qs ks vs by (simp_all add: attention_example_heads)
  have "attention_scores (key_dim ?m) [[[[1]]], [[[2]]]] [[[[2]]], [[[4]]]] = Inr [[[[1]]], [[[4]]]]"
    by (simp add: attention_defs attention_example_def)
  with sc have se: "scores = [[[[1]]], [[[4]]]]" by (simp add: qe ke)
  have "out ! 0 ! 0 ! 0 = [6]"
    using sl [rule_format, of 0 0 0, symmetric] by (simp add: ye attention_example_def)
  moreover have "out ! 1 ! 0 ! 0 = [8]"
    using sl [rule_format, of 1 0 0, symmetric] by (simp add: ye attention_example_def)
  ultimately show ?thesis
    using w fw yt mm by (auto simp: ye se ve)
qed

subsection \<open>Tensors of given extents through the encoder and the token layer\<close>

lemma extents_tensor4:
  assumes "is_tensor4 x N C H W" and "0 < N" and "0 < C"
  shows "extent1 x = C" and "extent2 x = H" and "0 < H \<Longrightarrow> extent3 x = W"
proof -
  obtain e es where x: "x = e # es" using assms(1,2) by (cases x) (auto simp: is_tensor4_def)
  then have e: "is_tensor3 e C H W" using assms(1) by (simp add: is_tensor4_def)
  then obtain c cs where ec: "e = c # cs" using assms(3) by (cases e) (auto simp: is_tensor3_def)
  then have c: "is_tensor2 c H W" using e by (simp add: is_tensor3_def)
  show "extent1 x = C" using x e by (simp add: extent1_def is_tensor3_def)
  show "extent2 x = H" using x ec c by (simp add: extent2_def extent1_def is_tensor2_def)
  show "extent3 x = W" if "0 < H"
  proof -
    from c that have "c \<noteq> []" by (auto simp: is_tensor2_def)
    then obtain r rs where "c = r # rs" by (cases c) auto
    with c x ec show ?thesis
      by (simp add: extent3_def extent2_def extent1_def is_tensor2_def)
  qed
qed

lemma Conv2d_forward_tensor:
  assumes x: "is_tensor4 x N (in_channels cv) H W" and "0 < N" and "0 < in_channels cv"
    and "0 < H" and "0 < W"
  shows "\<exists>y. Conv2d_forward cv x = Inr y
             \<and> is_tensor4 y N (out_channels cv) (conv_out_size H) (conv_out_size W)"
proof -
  have c: "list_all (\<lambda>e. length e = in_channels cv) x"
    using x by (simp add: is_tensor4_def is_tensor3_def list_all_iff)
  have e2: "extent2 x = H" and e3: "extent3 x = W"
    using extents_tensor4 [OF x assms(2,3)] assms(4) by simp_all
  let ?y = "map (\<lambda>e. map (\<lambda>k. map (\<lambda>i. map (\<lambda>j.
                  conv_at (conv_weight cv ! k) (conv_bias cv ! k) e i j)
                  [0..<conv_out_size W]) [0..<conv_out_size H]) [0..<out_channels cv]) x"
  have "Conv2d_forward cv x = Inr ?y"
    using c e2 e3 assms(4,5) by (simp add: Conv2d_forward_def)
  moreover have "is_tensor4 ?y N (out_channels cv) (conv_out_size H) (conv_out_size W)"
    using x by (simp add: is_tensor4_def is_tensor3_def is_tensor2_def list_all_iff)
  ultimately show ?thesis by blast
qed

lemma normalize_tensor:
  assumes "is_tensor4 x N C H W"
  shows "is_tensor4 (normalize bn mu var x) N C H W"
proof -
  have "is_tensor3 (map (\<lambda>c. map (map (\<lambda>v.
            (v - mu c) / sqrt (var c + bn_eps) * bn_weight bn ! c + bn_bias bn ! c)) (e ! c))
          [0..<length e]) C H W" if "e \<in> set x" for e
  proof -
    have e: "is_tensor3 e C H W" by (rule is_tensor4_set [OF assms that])
    then have "length e = C" by (simp add: is_tensor3_def)
    moreover have "is_tensor2 (e ! c) H W" if "c < C" for c
      by (rule is_tensor3_nth [OF e that])
    ultimately show ?thesis
      by (simp add: is_tensor3_def is_tensor2_def list_all_iff)
  qed
  then show ?thesis
    using assms by (simp add: normalize_def is_tensor4_def list_all_iff)
qed

lemma relu_tensor:
  assumes "is_tensor4 x N C H W"
  shows "is_tensor4 (relu x) N C H W"
  using assms by (simp add: relu_def is_tensor4_def is_tensor3_def is_tensor2_def list_all_iff)

lemma BatchNorm2d_forward_tensor:
  assumes x: "is_tensor4 x N (num_features bn) H W" and "2 \<le> N" and "0 < num_features bn"
    and "0 < H" and "0 < W"
  shows "\<exists>y bn'. BatchNorm2d_forward bn x = (Inr y, bn') \<and> is_tensor4 y N (num_features bn) H W"
proof -
  have c: "list_all (\<lambda>e. length e = num_features bn) x"
    using x by (simp add: is_tensor4_def is_tensor3_def list_all_iff)
  have N: "0 < N" using assms(2) by simp
  have e2: "extent2 x = H" and e3: "extent3 x = W"
    using extents_tensor4 [OF x N assms(3)] assms(4) by simp_all
  have lx: "length x = N" using x by (simp add: is_tensor4_def)
  have "2 * 1 * 1 \<le> N * H * W"
    using assms(2,4,5) by (intro mult_le_mono) simp_all
  then have "N * H * W \<noteq> 1" by linarith
  then have M: "(length x * extent2 x * extent3 x = 1) = False"
    by (simp only: lx e2 e3)
  show ?thesis
    using c normalize_tensor [OF x]
    by (simp only: BatchNorm2d_forward_def Let_def M) simp
qed

lemma conv_out_size_pos: "0 < conv_out_size l"
  by (simp add: conv_out_size_def)

lemma conv_stack_tensor:
  assumes "chain_ok C cvs bs" and "is_tensor4 x N C H W" and "2 \<le> N" and "0 < C"
    and "0 < H" and "0 < W"
  shows "\<exists>y bs'. conv_stack cvs bs x = (Inr y, bs')
           \<and> is_tensor4 y N (final_channels C cvs) ((conv_out_size ^^ length cvs) H)
                ((conv_out_size ^^ length cvs) W)
           \<and> 0 < final_channels C cvs"
  using assms
proof (induction C cvs bs arbitrary: x H W rule: chain_ok.induct)
  case (1 c)
  then show ?case by (simp add: final_channels_def)
next
  case (2 c cv cvs bn bs)
  from "2.prems"(1) have ic: "in_channels cv = c" and nf: "num_features bn = out_channels cv"
    and oc: "0 < out_channels cv" and ch: "chain_ok (out_channels cv) cvs bs"
    by simp_all
  have N: "0 < N" using "2.prems"(3) by simp
  obtain y1 where y1: "Conv2d_forward cv x = Inr y1"
    and t1: "is_tensor4 y1 N (out_channels cv) (conv_out_size H) (conv_out_size W)"
    using Conv2d_forward_tensor [of x N cv H W] "2.prems" ic N by auto
  obtain y2 bn' where y2: "BatchNorm2d_forward bn y1 = (Inr y2, bn')"
    and t2: "is_tensor4 y2 N (out_channels cv) (conv_out_size H) (conv_out_size W)"
    using BatchNorm2d_forward_tensor [of y1 N bn "conv_out_size H" "conv_out_size W"]
      t1 nf oc "2.prems"(3) conv_out_size_pos by auto
  obtain y bs' where y: "conv_stack cvs bs (relu y2) = (Inr y, bs')"
    and t: "is_tensor4 y N (final_channels (out_channels cv) cvs)
              ((conv_out_size ^^ length cvs) (conv_out_size H))
              ((conv_out_size ^^ length cvs) (conv_out_size W))"
    and f: "0 < final_channels (out_channels cv) cvs"
    using "2.IH" [OF ch relu_tensor [OF t2] "2.prems"(3) oc conv_out_size_pos conv_out_size_pos]
    by blast
  have fc: "final_channels c (cv # cvs) = final_channels (out_channels cv) cvs"
    by (simp add: final_channels_def)
  show ?case
    using y1 y2 y t f by (simp add: fc funpow_swap1)
qed simp_all

lemma length_concat_tensor2:
  assumes "is_tensor2 e T M"
  shows "length (concat e) = T * M"
proof -
  have "map length e = replicate T M"
    using assms by (auto simp: is_tensor2_def list_all_iff intro!: replicate_eqI)
  then show ?thesis by (simp add: length_concat sum_list_replicate)
qed

lemma rows_of_tensor:
  assumes "0 < k"
  shows "is_tensor2 (rows_of k xs) (length xs div k) k"
proof -
  have "length (take k (drop (i * k) xs)) = k" if "i < length xs div k" for i
  proof -
    have "Suc i * k \<le> (length xs div k) * k" using that by (intro mult_le_mono1) simp
    also have "\<dots> \<le> length xs" by simp
    finally show ?thesis by simp
  qed
  then show ?thesis by (simp add: rows_of_def is_tensor2_def list_all_iff)
qed

lemma view_tensor:
  assumes x: "is_tensor3 x N T M" and N: "0 < N" and m: "0 < m" and dv: "(T * M) mod nat m = 0"
  shows "view_N_1_mel m x = Inr (map (\<lambda>e. [rows_of (nat m) (concat e)]) x)"
    and "is_tensor4 (map (\<lambda>e. [rows_of (nat m) (concat e)]) x) N 1 (T * M div nat m) (nat m)"
proof -
  have len: "length (concat e) = T * M" if "e \<in> set x" for e
    by (rule length_concat_tensor2 [OF is_tensor3_set [OF x that]])
  have "x \<noteq> []" using x N by (auto simp: is_tensor3_def)
  moreover have "list_all (\<lambda>e. length (concat e) mod nat m = 0) x"
    using len dv by (simp add: list_all_iff)
  ultimately show "view_N_1_mel m x = Inr (map (\<lambda>e. [rows_of (nat m) (concat e)]) x)"
    using m by (simp add: view_N_1_mel_def)
  have "is_tensor3 [rows_of (nat m) (concat e)] 1 (T * M div nat m) (nat m)" if "e \<in> set x" for e
    using rows_of_tensor [of "nat m" "concat e"] m len [OF that]
    by (simp add: is_tensor3_def)
  then show "is_tensor4 (map (\<lambda>e. [rows_of (nat m) (concat e)]) x) N 1 (T * M div nat m) (nat m)"
    using x by (simp add: is_tensor4_def is_tensor3_def list_all_iff)
qed

lemma time_major_tensor:
  assumes y: "is_tensor4 y N C T W" and "0 < N" and "0 < C" and "0 < T"
  shows "\<exists>z. time_major y = Inr z \<and> is_tensor3 z N T (C * W)"
proof -
  have e2: "extent2 y = T" using extents_tensor4 [OF y assms(2,3)] by simp
  have ne: "y \<noteq> []" using y assms(2) by (auto simp: is_tensor4_def)
  let ?z = "map (\<lambda>e. map (\<lambda>t. concat (map (\<lambda>ch. ch ! t) e)) [0..<T]) y"
  have "time_major y = Inr ?z"
    using e2 ne assms(4) by (simp add: time_major_def)
  moreover have "is_tensor3 ?z N T (C * W)"
  proof -
    have "length (concat (map (\<lambda>ch. ch ! t) e)) = C * W" if "e \<in> set y" and "t < T" for e t
    proof -
      have e: "is_tensor3 e C T W" by (rule is_tensor4_set [OF y that(1)])
      have "length (ch ! t) = W" if "ch \<in> set e" for ch
        using is_tensor2_nth [OF is_tensor3_set [OF e that] \<open>t < T\<close>] .
      then have "map length (map (\<lambda>ch. ch ! t) e) = replicate (length e) W"
        by (intro replicate_eqI) auto
      moreover have "length e = C" using e by (simp add: is_tensor3_def)
      ultimately show ?thesis by (simp add: length_concat sum_list_replicate del: map_map)
    qed
    then show ?thesis
      using y by (simp add: is_tensor4_def is_tensor3_def is_tensor2_def list_all_iff)
  qed
  ultimately show ?thesis by blast
qed

lemma length_GRU_cell: "length (GRU_cell g h v) = hidden_size g"
  by (simp add: GRU_cell_def Let_def)

lemma length_foldl_GRU_cell:
  "length h = hidden_size g \<Longrightarrow> length (foldl (GRU_cell g) h e) = hidden_size g"
  by (induction e arbitrary: h) (simp_all add: length_GRU_cell)

lemma GRU_forward_tensor:
  assumes "is_tensor3 z N T (input_size g)"
  shows "\<exists>hs. GRU_forward g z = Inr [hs] \<and> is_tensor2 hs N (hidden_size g)"
proof -
  have "list_all (list_all (\<lambda>v. length v = input_size g)) z"
    using assms by (auto simp: is_tensor3_def is_tensor2_def list_all_iff)
  then have "GRU_forward g z
             = Inr [map (\<lambda>e. foldl (GRU_cell g) (replicate (hidden_size g) 0) e) z]"
    by (simp add: GRU_forward_def)
  moreover have "is_tensor2 (map (\<lambda>e. foldl (GRU_cell g) (replicate (hidden_size g) 0) e) z)
                   N (hidden_size g)"
    using assms by (simp add: is_tensor2_def is_tensor3_def list_all_iff length_foldl_GRU_cell)
  ultimately show ?thesis by blast
qed

lemma funpow_conv_out_size_pos: "0 < n \<Longrightarrow> 0 < (conv_out_size ^^ K) n"
  by (induction K) (simp_all add: conv_out_size_pos)

lemma ReferenceEncoder_forward_tensor:
  assumes ch: "chain_ok 1 (convs enc) (bns enc)"
    and m: "0 < enc_n_mel_channels enc"
    and x: "is_tensor3 x N T (nat (enc_n_mel_channels enc))"
    and N: "2 \<le> N" and T: "0 < T"
    and g: "input_size (gru enc)
            = final_channels 1 (convs enc)
              * (conv_out_size ^^ length (convs enc)) (nat (enc_n_mel_channels enc))"
  shows "\<exists>y. fst (ReferenceEncoder_forward enc x None) = Inr y
             \<and> is_tensor2 y N (hidden_size (gru enc))"
proof -
  let ?m = "nat (enc_n_mel_channels enc)"
  let ?K = "length (convs enc)"
  let ?v = "map (\<lambda>e. [rows_of ?m (concat e)]) x"
  have N0: "0 < N" using N by simp
  have dv: "(T * ?m) mod ?m = 0" by simp
  have v: "view_N_1_mel (enc_n_mel_channels enc) x = Inr ?v"
    by (rule view_tensor(1) [OF x N0 m dv])
  have "is_tensor4 ?v N 1 (T * ?m div ?m) ?m"
    by (rule view_tensor(2) [OF x N0 m dv])
  then have vt: "is_tensor4 ?v N 1 T ?m" using m by simp
  obtain y bs' where cs: "conv_stack (convs enc) (bns enc) ?v = (Inr y, bs')"
    and yt: "is_tensor4 y N (final_channels 1 (convs enc)) ((conv_out_size ^^ ?K) T)
               ((conv_out_size ^^ ?K) ?m)"
    and fc: "0 < final_channels 1 (convs enc)"
    using conv_stack_tensor [OF ch vt N _ T] m by auto
  obtain z where z: "time_major y = Inr z"
    and zt: "is_tensor3 z N ((conv_out_size ^^ ?K) T)
               (final_channels 1 (convs enc) * (conv_out_size ^^ ?K) ?m)"
    using time_major_tensor [OF yt N0 fc funpow_conv_out_size_pos [OF T]] by blast
  obtain hs where hs: "GRU_forward (gru enc) z = Inr [hs]"
    and ht: "is_tensor2 hs N (hidden_size (gru enc))"
    using GRU_forward_tensor [of z N _ "gru enc"] zt g by auto
  have "fst (ReferenceEncoder_forward enc x None) = Inr hs"
    by (simp add: ReferenceEncoder_forward_def v cs encoder_tail_def z hs bind_def)
  with ht show ?thesis by blast
qed

lemma collect_Inr_nth:
  "collect rs = Inr vs \<Longrightarrow> length vs = length rs \<and> (\<forall>i < length rs. rs ! i = Inr (vs ! i))"
proof (induction rs arbitrary: vs)
  case Nil
  then show ?case by simp
next
  case (Cons r rs)
  from Cons.prems obtain v vs' where r: "r = Inr v" and c: "collect rs = Inr vs'"
    and vs: "vs = v # vs'"
    by (auto split: sum.splits)
  from Cons.IH [OF c] show ?case
    by (auto simp: r vs nth_Cons split: nat.splits)
qed

lemma chain_ok_nth:
  assumes "length bs = length cs" and "length fs = Suc (length cs)"
    and "\<And>i. i < length cs \<Longrightarrow>
           in_channels (cs ! i) = fs ! i \<and> out_channels (cs ! i) = fs ! Suc i
           \<and> num_features (bs ! i) = fs ! Suc i \<and> 0 < fs ! Suc i"
  shows "chain_ok (fs ! 0) cs bs \<and> final_channels (fs ! 0) cs = last fs"
  using assms
proof (induction cs arbitrary: bs fs)
  case Nil
  then show ?case by (cases fs) (simp_all add: final_channels_def)
next
  case (Cons c cs)
  from Cons.prems(1) obtain b bs' where bs: "bs = b # bs'" by (cases bs) auto
  from Cons.prems(2) obtain f fs' where fs: "fs = f # fs'" by (cases fs) auto
  have h0: "in_channels c = f \<and> out_channels c = fs' ! 0 \<and> num_features b = fs' ! 0 \<and> 0 < fs' ! 0"
    using Cons.prems(3) [of 0] by (simp add: bs fs)
  have "chain_ok (fs' ! 0) cs bs' \<and> final_channels (fs' ! 0) cs = last fs'"
  proof (rule Cons.IH)
    show "length bs' = length cs" using Cons.prems(1) bs by simp
    show "length fs' = Suc (length cs)" using Cons.prems(2) fs by simp
    fix i assume "i < length cs"
    then show "in_channels (cs ! i) = fs' ! i \<and> out_channels (cs ! i) = fs' ! Suc i
           \<and> num_features (bs' ! i) = fs' ! Suc i \<and> 0 < fs' ! Suc i"
      using Cons.prems(3) [of "Suc i"] by (simp add: bs fs)
  qed
  moreover have "fs' \<noteq> []" using Cons.prems(2) fs by auto
  moreover have "final_channels f (c # cs) = final_channels (out_channels c) cs"
    by (simp add: final_channels_def)
  ultimately show ?case using h0 by (simp add: bs fs)
qed

lemma funpow_conv_out_size_int:
  "0 < n \<Longrightarrow> int ((conv_out_size ^^ K) n) = ((\<lambda>l. (l - 3 + 2) div 2 + 1) ^^ K) (int n)"
proof (induction K)
  case 0
  show ?case by simp
next
  case (Suc K)
  have p: "0 < (conv_out_size ^^ K) n" by (rule funpow_conv_out_size_pos [OF Suc.prems])
  have "int (conv_out_size m) = (int m - 3 + 2) div 2 + 1" if "0 < m" for m
    using that by (simp add: conv_out_size_def zdiv_int)
  with p Suc show ?case by simp
qed

lemma Conv2d_init_fields:
  "Conv2d_init s a b = Inr c \<Longrightarrow> in_channels c = nat a \<and> out_channels c = nat b"
  by (auto simp: Conv2d_init_def split: if_splits)

lemma BatchNorm2d_init_fields:
  "BatchNorm2d_init a = Inr b \<Longrightarrow> num_features b = nat a"
  by (auto simp: BatchNorm2d_init_def split: if_splits)

lemma ReferenceEncoder_init_wf:
  assumes init: "ReferenceEncoder_init s hp = Inr enc"
    and pos: "list_all (\<lambda>f. 0 < f) (ref_enc_filters hp)"
    and m: "0 < n_mel_channels hp"
  shows "chain_ok 1 (convs enc) (bns enc)"
    and "enc_n_mel_channels enc = n_mel_channels hp"
    and "input_size (gru enc)
         = final_channels 1 (convs enc)
           * (conv_out_size ^^ length (convs enc)) (nat (n_mel_channels hp))"
    and "hidden_size (gru enc) = nat (ref_enc_gru_size hp)"
proof -
  let ?K = "length (ref_enc_filters hp)"
  let ?fl = "1 # ref_enc_filters hp"
  let ?L = "((\<lambda>l. (l - 3 + 2) div 2 + 1) ^^ ?K) (n_mel_channels hp)"
  have cc: "calculate_channels (n_mel_channels hp) 3 2 1 (int ?K) = Inr ?L"
    by (simp add: calculate_channels_def calculate_channels_loop_funpow)
  from init obtain cs bs g where
    cs: "collect (map (\<lambda>i. Conv2d_init (sub (sub s 0) i) (?fl ! i) (?fl ! (i + 1))) [0..<?K])
         = Inr cs"
    and bs: "collect (map (\<lambda>i. BatchNorm2d_init (ref_enc_filters hp ! i)) [0..<?K]) = Inr bs"
    and ne: "ref_enc_filters hp \<noteq> []"
    and g: "GRU_init (sub s 1) (last (ref_enc_filters hp) * ?L) (ref_enc_gru_size hp) = Inr g"
    and enc: "enc = \<lparr>convs = cs, bns = bs, gru = g, enc_n_mel_channels = n_mel_channels hp,
                     enc_ref_enc_gru_size = ref_enc_gru_size hp\<rparr>"
    unfolding ReferenceEncoder_init_def Let_def cc py_last_def
    by (auto split: sum.splits if_splits)
  have lcs: "length cs = ?K" and lbs: "length bs = ?K"
    using collect_Inr_nth [OF cs] collect_Inr_nth [OF bs] by simp_all
  have ci: "Conv2d_init (sub (sub s 0) i) (?fl ! i) (?fl ! (i + 1)) = Inr (cs ! i)" if "i < ?K" for i
    using collect_Inr_nth [OF cs] that by simp
  have bi: "BatchNorm2d_init (ref_enc_filters hp ! i) = Inr (bs ! i)" if "i < ?K" for i
    using collect_Inr_nth [OF bs] that by simp
  have fpos: "0 < ref_enc_filters hp ! i" if "i < ?K" for i
    using pos that by (simp add: list_all_length)
  have ch: "chain_ok (map nat ?fl ! 0) cs bs \<and> final_channels (map nat ?fl ! 0) cs = last (map nat ?fl)"
  proof (rule chain_ok_nth)
    show "length bs = length cs" by (simp add: lcs lbs)
    show "length (map nat ?fl) = Suc (length cs)" by (simp add: lcs)
    fix i assume "i < length cs"
    then have i: "i < ?K" by (simp add: lcs)
    have "in_channels (cs ! i) = nat (?fl ! i) \<and> out_channels (cs ! i) = nat (?fl ! (i + 1))"
      by (rule Conv2d_init_fields [OF ci [OF i]])
    moreover have "num_features (bs ! i) = nat (ref_enc_filters hp ! i)"
      by (rule BatchNorm2d_init_fields [OF bi [OF i]])
    ultimately show "in_channels (cs ! i) = map nat ?fl ! i
         \<and> out_channels (cs ! i) = map nat ?fl ! Suc i
         \<and> num_features (bs ! i) = map nat ?fl ! Suc i \<and> 0 < map nat ?fl ! Suc i"
      using i fpos [OF i] by (simp add: nth_Cons split: nat.splits)
  qed
  then show "chain_ok 1 (convs enc) (bns enc)" by (simp add: enc)
  show "enc_n_mel_channels enc = n_mel_channels hp" by (simp add: enc)
  have lf: "0 < last (ref_enc_filters hp)"
    using pos ne by (simp add: list_all_iff)
  have fc: "final_channels (Suc 0) cs = nat (last (ref_enc_filters hp))"
    using ch ne by (simp add: last_map)
  have L: "int ((conv_out_size ^^ ?K) (nat (n_mel_channels hp))) = ?L"
    using funpow_conv_out_size_int [of "nat (n_mel_channels hp)" ?K] m by simp
  have "int (input_size g) = last (ref_enc_filters hp) * ?L"
    using g by (auto simp: GRU_init_def split: if_splits)
  also have "\<dots> = int (nat (last (ref_enc_filters hp)) * (conv_out_size ^^ ?K) (nat (n_mel_channels hp)))"
    using lf L by simp
  finally have "input_size g = nat (last (ref_enc_filters hp)) * (conv_out_size ^^ ?K) (nat (n_mel_channels hp))"
    by (simp only: int_int_eq)
  then show "input_size (gru enc)
         = final_channels 1 (convs enc)
           * (conv_out_size ^^ length (convs enc)) (nat (n_mel_channels hp))"
    by (simp add: enc fc lcs)
  show "hidden_size (gru enc) = nat (ref_enc_gru_size hp)"
    using g by (auto simp: enc GRU_init_def split: if_splits)
qed

lemma tensor2_of_tensor: "is_tensor2 (tensor2_of s n m) n m"
  by (simp add: tensor2_of_def tensor1_of_def is_tensor2_def list_all_iff)

lemma Linear_init_wf:
  assumes "Linear_init s a b = Inr l"
  shows "wf_Linear l" and "in_features l = nat a" and "out_features l = nat b"
    and "0 \<le> a" and "0 \<le> b"
  using assms
  by (auto simp: Linear_init_def wf_Linear_def tensor2_of_tensor split: if_splits)

lemma STL_init_wf:
  assumes init: "STL_init s hp = Inr tok"
    and h: "0 < num_heads hp" and dv: "num_heads hp dvd token_embedding_size hp"
    and e: "0 < token_embedding_size hp"
  shows "wf_MultiHeadAttention (attention tok)"
    and "in_features (W_query (attention tok)) = nat (ref_enc_gru_size hp)"
    and "in_features (W_key (attention tok)) = nat (token_embedding_size hp div num_heads hp)"
    and "is_tensor2 (embed tok) (nat (token_num hp))
           (nat (token_embedding_size hp div num_heads hp))"
    and "num_units (attention tok) = token_embedding_size hp"
    and "0 < key_dim (attention tok)"
proof -
  let ?d = "token_embedding_size hp div num_heads hp"
  have q: "token_embedding_size hp = num_heads hp * ?d" using dv by simp
  have dpos: "0 < ?d" using h e by (metis q zero_less_mult_pos)
  from init h obtain wq wk wv where
    wq: "Linear_init (sub (sub s 1) 0) (ref_enc_gru_size hp) (token_embedding_size hp) = Inr wq"
    and wk: "Linear_init (sub (sub s 1) 1) ?d (token_embedding_size hp) = Inr wk"
    and wv: "Linear_init (sub (sub s 1) 2) ?d (token_embedding_size hp) = Inr wv"
    and tok: "tok = \<lparr>embed = tensor2_of (sub s 0) (nat (token_num hp)) (nat ?d),
                     attention = \<lparr>num_units = token_embedding_size hp,
                       mha_num_heads = num_heads hp, key_dim = ?d,
                       W_query = wq, W_key = wk, W_value = wv\<rparr>\<rparr>"
    unfolding STL_init_def MultiHeadAttention_init_def py_floordiv_def bind_def Let_def
    by (auto split: if_splits sum.splits)
  note fq = Linear_init_wf [OF wq] and fk = Linear_init_wf [OF wk] and fv = Linear_init_wf [OF wv]
  show "wf_MultiHeadAttention (attention tok)"
    using fq fk fv h dv e by (simp add: wf_MultiHeadAttention_def tok)
  show "in_features (W_query (attention tok)) = nat (ref_enc_gru_size hp)"
    using fq by (simp add: tok)
  show "in_features (W_key (attention tok)) = nat ?d"
    using fk by (simp add: tok)
  show "is_tensor2 (embed tok) (nat (token_num hp)) (nat ?d)"
    by (simp add: tok tensor2_of_tensor)
  show "num_units (attention tok) = token_embedding_size hp" by (simp add: tok)
  show "0 < key_dim (attention tok)" using dpos by (simp add: tok)
qed

lemma MultiHeadAttention_forward_tensor:
  assumes wf: "wf_MultiHeadAttention m" and kd: "0 \<le> key_dim m"
    and q: "is_tensor3 query N Tq (in_features (W_query m))"
    and k: "is_tensor3 key N Tk (in_features (W_key m))" and tk: "0 < Tk"
  shows "\<exists>y. MultiHeadAttention_forward m query key = Inr y
             \<and> is_tensor3 y N Tq (nat (num_units m))"
proof -
  note run = MultiHeadAttention_forward_run [OF wf kd q k tk]
  let ?H = "nat (mha_num_heads m)"
  let ?d = "nat (num_units m div mha_num_heads m)"
  let ?out = "head_outputs (attention_weights (head_scores (key_dim m)
                (heads_of m (W_query m) query) (heads_of m (W_key m) key)))
                (heads_of m (W_value m) key)"
  let ?y = "map (\<lambda>n. map (\<lambda>t. concat (map (\<lambda>h. ?out ! h ! n ! t) [0..<?H])) [0..<Tq]) [0..<N]"
  have "length (concat (map (\<lambda>h. ?out ! h ! n ! t) [0..<?H])) = ?H * ?d"
    if "n < N" and "t < Tq" for n t
  proof -
    have "length (?out ! h ! n ! t) = ?d" if "h < ?H" for h
      using is_tensor2_nth [OF is_tensor3_nth [OF is_tensor4_nth [OF run(10) that] \<open>n < N\<close>]
          \<open>t < Tq\<close>] .
    then have "map length (map (\<lambda>h. ?out ! h ! n ! t) [0..<?H]) = replicate ?H ?d"
      by (intro replicate_eqI) auto
    then show ?thesis by (simp add: length_concat sum_list_replicate del: map_map)
  qed
  moreover have "nat (num_units m) = ?H * ?d"
    using run(14) by (metis nat_int)
  ultimately have "is_tensor3 ?y N Tq (nat (num_units m))"
    by (simp add: is_tensor3_def is_tensor2_def list_all_iff)
  with run(11) show ?thesis by blast
qed

lemma STL_forward_tensor:
  assumes wf: "wf_MultiHeadAttention (attention tok)" and kd: "0 \<le> key_dim (attention tok)"
    and v: "is_tensor2 v N (in_features (W_query (attention tok)))"
    and em: "is_tensor2 (embed tok) Tk (in_features (W_key (attention tok)))" and tk: "0 < Tk"
  shows "\<exists>out. STL_forward tok v = Inr out
               \<and> is_tensor3 out N 1 (nat (num_units (attention tok)))"
proof -
  have q: "is_tensor3 (map (\<lambda>r. [r]) v) N 1 (in_features (W_query (attention tok)))"
    using v by (simp add: is_tensor3_def is_tensor2_def list_all_iff)
  have lv: "length v = N" using v by (simp add: is_tensor2_def)
  have k: "is_tensor3 (replicate N (map (map tanh) (embed tok))) N Tk
             (in_features (W_key (attention tok)))"
    using em by (simp add: is_tensor3_def is_tensor2_def list_all_iff)
  from MultiHeadAttention_forward_tensor [OF wf kd q k tk]
  show ?thesis by (simp add: STL_forward_def Let_def lv)
qed

subsection \<open>What the constructors accept\<close>

lemma ReferenceEncoder_init_succeeds:
  assumes ne: "ref_enc_filters hp \<noteq> []"
    and pos: "list_all (\<lambda>f. 0 \<le> f) (ref_enc_filters hp)"
    and m: "0 < n_mel_channels hp" and gs: "0 \<le> ref_enc_gru_size hp"
  shows "\<exists>enc. ReferenceEncoder_init s hp = Inr enc"
proof -
  let ?K = "length (ref_enc_filters hp)"
  let ?fl = "1 # ref_enc_filters hp"
  let ?L = "((\<lambda>l. (l - 3 + 2) div 2 + 1) ^^ ?K) (n_mel_channels hp)"
  have cc: "calculate_channels (n_mel_channels hp) 3 2 1 (int ?K) = Inr ?L"
    by (simp add: calculate_channels_def calculate_channels_loop_funpow)
  have fl: "0 \<le> ?fl ! i" if "i \<le> ?K" for i
    using pos that by (cases i) (simp_all add: list_all_length)
  have "\<exists>cs. collect (map (\<lambda>i. Conv2d_init (sub (sub s 0) i) (?fl ! i) (?fl ! (i + 1))) [0..<?K])
              = Inr cs"
  proof (rule collect_Inr_all)
    fix r assume "r \<in> set (map (\<lambda>i. Conv2d_init (sub (sub s 0) i) (?fl ! i) (?fl ! (i + 1))) [0..<?K])"
    then obtain i where i: "i < ?K"
      and r: "r = Conv2d_init (sub (sub s 0) i) (?fl ! i) (?fl ! (i + 1))" by auto
    have "0 \<le> ?fl ! i" and "0 \<le> ?fl ! (i + 1)" using fl [of i] fl [of "i + 1"] i by simp_all
    then show "\<exists>v. r = Inr v" unfolding r Conv2d_init_def by (simp add: not_less)
  qed
  moreover have "\<exists>bs. collect (map (\<lambda>i. BatchNorm2d_init (ref_enc_filters hp ! i)) [0..<?K])
              = Inr bs"
  proof (rule collect_Inr_all)
    fix r assume "r \<in> set (map (\<lambda>i. BatchNorm2d_init (ref_enc_filters hp ! i)) [0..<?K])"
    then obtain i where i: "i < ?K" and r: "r = BatchNorm2d_init (ref_enc_filters hp ! i)"
      by auto
    have "0 \<le> ref_enc_filters hp ! i" using pos i by (simp add: list_all_length)
    then show "\<exists>v. r = Inr v" unfolding r BatchNorm2d_init_def by (simp add: not_less)
  qed
  moreover have "0 \<le> last (ref_enc_filters hp) * ?L"
  proof -
    have "0 \<le> last (ref_enc_filters hp)" using pos ne by (simp add: list_all_iff)
    moreover have "0 \<le> ?L"
      using funpow_conv_out_size_int [of "nat (n_mel_channels hp)" ?K] m
      by (metis int_nat_eq of_nat_0_le_iff order_less_imp_le zero_less_nat_eq)
    ultimately show ?thesis by simp
  qed
  ultimately show ?thesis
    using ne gs
    by (auto simp: ReferenceEncoder_init_def Let_def cc py_last_def GRU_init_def not_less)
qed

lemma STL_init_succeeds:
  assumes "num_heads hp \<noteq> 0" and "0 \<le> token_num hp" and "0 \<le> ref_enc_gru_size hp"
    and "0 \<le> token_embedding_size hp" and "0 \<le> token_embedding_size hp div num_heads hp"
  shows "\<exists>tok. STL_init s hp = Inr tok"
  using assms
  by (simp add: STL_init_def MultiHeadAttention_init_def Linear_init_def py_floordiv_def
      bind_def Let_def not_less)

lemma GST_init_succeeds:
  assumes "\<exists>enc. ReferenceEncoder_init (sub s 0) hp = Inr enc"
    and "\<exists>tok. STL_init (sub s 1) hp = Inr tok"
  shows "\<exists>g. GST_init s hp = Inr g"
  using assms by (auto simp: GST_init_def bind_def)

lemma scenario_init: "\<exists>g. GST_init s scenario = Inr g"
  by (intro GST_init_succeeds ReferenceEncoder_init_succeeds STL_init_succeeds)
     (simp_all add: scenario_def)

lemma scenario_250_init: "\<exists>g. GST_init s scenario_250 = Inr g"
  by (intro GST_init_succeeds ReferenceEncoder_init_succeeds STL_init_succeeds)
     (simp_all add: scenario_250_def scenario_def)

subsection \<open>The extents of the style embedding\<close>

text \<open>
  C1 (amended). For a model built by the constructor from a configuration with positive
  filter counts, \<^verbatim>\<open>n_mel_channels\<close>, \<^verbatim>\<open>token_num\<close> and \<^verbatim>\<open>token_embedding_size\<close>
  and a positive \<^verbatim>\<open>num_heads\<close> dividing \<^verbatim>\<open>token_embedding_size\<close>:
  \<^verbatim>\<open>STL.forward\<close> on a batch of \<open>N\<close> query vectors returns the attention output as it
  is, with the query-time axis of extent 1 kept: a tensor
  [N, 1, token_embedding_size]; and \<^verbatim>\<open>GST.forward\<close> without lengths on a batch
  [N, T, n_mel_channels] with \<open>N \<ge> 2\<close> and \<open>T \<ge> 1\<close> returns a tensor
  [N, 1, token_embedding_size]. In the scenario of the specification this is [2, 1, 256].
\<close>

theorem GST_forward_shape:
  assumes init: "GST_init s hp = Inr g"
    and pos: "list_all (\<lambda>f. 0 < f) (ref_enc_filters hp)"
    and m: "0 < n_mel_channels hp"
    and h: "0 < num_heads hp" and dv: "num_heads hp dvd token_embedding_size hp"
    and e: "0 < token_embedding_size hp" and tn: "0 < token_num hp"
  shows "(is_tensor2 v N' (nat (ref_enc_gru_size hp))
          \<longrightarrow> (\<exists>out. STL_forward (stl g) v = Inr out
                 \<and> is_tensor3 out N' 1 (nat (token_embedding_size hp))))
       \<and> (is_tensor3 x N T (nat (n_mel_channels hp)) \<and> 2 \<le> N \<and> 0 < T
          \<longrightarrow> (\<exists>out. fst (GST_forward g x None) = Inr out
                 \<and> is_tensor3 out N 1 (nat (token_embedding_size hp))))"
proof -
  from init obtain enc tok where
    enc: "ReferenceEncoder_init (sub s 0) hp = Inr enc"
    and tok: "STL_init (sub s 1) hp = Inr tok"
    and g: "g = \<lparr>encoder = enc, stl = tok\<rparr>"
    by (auto simp: GST_init_def bind_def split: sum.splits)
  note we = ReferenceEncoder_init_wf [OF enc pos m]
  note wt = STL_init_wf [OF tok h dv e]
  have kd: "0 \<le> key_dim (attention tok)" using wt(6) by simp
  have em: "is_tensor2 (embed tok) (nat (token_num hp)) (in_features (W_key (attention tok)))"
    using wt(3,4) by simp
  have tk: "0 < nat (token_num hp)" using tn by simp
  have st: "\<exists>out. STL_forward tok w = Inr out \<and> is_tensor3 out n 1 (nat (token_embedding_size hp))"
    if "is_tensor2 w n (nat (ref_enc_gru_size hp))" for w n
    using STL_forward_tensor [OF wt(1) kd _ em tk, of w n] that wt(2,5) by simp
  have a: "is_tensor2 v N' (nat (ref_enc_gru_size hp))
          \<longrightarrow> (\<exists>out. STL_forward (stl g) v = Inr out
                 \<and> is_tensor3 out N' 1 (nat (token_embedding_size hp)))"
    using st by (simp add: g)
  have b: "\<exists>out. fst (GST_forward g x None) = Inr out
                 \<and> is_tensor3 out N 1 (nat (token_embedding_size hp))"
    if x: "is_tensor3 x N T (nat (n_mel_channels hp))" and N: "2 \<le> N" and T: "0 < T"
  proof -
    have x': "is_tensor3 x N T (nat (enc_n_mel_channels enc))" using x we(2) by simp
    have m': "0 < enc_n_mel_channels enc" using m we(2) by simp
    have gi: "input_size (gru enc) = final_channels 1 (convs enc)
              * (conv_out_size ^^ length (convs enc)) (nat (enc_n_mel_channels enc))"
      using we(3) we(2) by simp
    obtain y where y: "fst (ReferenceEncoder_forward enc x None) = Inr y"
      and yt: "is_tensor2 y N (hidden_size (gru enc))"
      using ReferenceEncoder_forward_tensor [OF we(1) m' x' N T gi] by blast
    from yt we(4) have "is_tensor2 y N (nat (ref_enc_gru_size hp))" by simp
    from st [OF this] obtain out where "STL_forward tok y = Inr out"
      and "is_tensor3 out N 1 (nat (token_embedding_size hp))" by blast
    with y show ?thesis
      by (cases "ReferenceEncoder_forward enc x None") (simp add: GST_forward_def g bind_def)
  qed
  from a b show ?thesis by blast
qed

theorem GST_forward_shape_witness:
  "is_tensor2 (replicate 2 (replicate 128 (1::real))) 2 (nat (ref_enc_gru_size scenario))
   \<and> is_tensor3 (replicate 2 (replicate 50 (replicate 80 (1::real)))) 2 50
        (nat (n_mel_channels scenario))
   \<and> (\<exists>g out. GST_init zero_seed scenario = Inr g
          \<and> STL_forward (stl g) (replicate 2 (replicate 128 1)) = Inr out
          \<and> is_tensor3 out 2 1 256)
   \<and> (\<exists>g out. GST_init zero_seed scenario = Inr g
          \<and> fst (GST_forward g (replicate 2 (replicate 50 (replicate 80 1))) None) = Inr out
          \<and> is_tensor3 out 2 1 256)"
proof -
  obtain g where g: "GST_init zero_seed scenario = Inr g"
    using scenario_init by blast
  have v: "is_tensor2 (replicate 2 (replicate 128 (1::real))) 2 (nat (ref_enc_gru_size scenario))"
    by (simp add: is_tensor2_def list_all_iff scenario_def)
  have x: "is_tensor3 (replicate 2 (replicate 50 (replicate 80 (1::real)))) 2 50
             (nat (n_mel_channels scenario))"
    by (simp add: is_tensor3_def is_tensor2_def list_all_iff scenario_def)
  have "(is_tensor2 (replicate 2 (replicate 128 (1::real))) 2 (nat (ref_enc_gru_size scenario))
          \<longrightarrow> (\<exists>out. STL_forward (stl g) (replicate 2 (replicate 128 1)) = Inr out
                 \<and> is_tensor3 out 2 1 (nat (token_embedding_size scenario))))
       \<and> (is_tensor3 (replicate 2 (replicate 50 (replicate 80 (1::real)))) 2 50
            (nat (n_mel_channels scenario)) \<and> (2::nat) \<le> 2 \<and> (0::nat) < 50
          \<longrightarrow> (\<exists>out. fst (GST_forward g (replicate 2 (replicate 50 (replicate 80 1))) None)
                       = Inr out
                 \<and> is_tensor3 out 2 1 (nat (token_embedding_size scenario))))"
    by (rule GST_forward_shape [OF g]) (simp_all add: scenario_def)
  with v x have
    "\<exists>out. STL_forward (stl g) (replicate 2 (replicate 128 1)) = Inr out
           \<and> is_tensor3 out 2 1 (nat (token_embedding_size scenario))"
    "\<exists>out. fst (GST_forward g (replicate 2 (replicate 50 (replicate 80 1))) None) = Inr out
           \<and> is_tensor3 out 2 1 (nat (token_embedding_size scenario))"
    by simp_all
  moreover have "nat (token_embedding_size scenario) = 256" by (simp add: scenario_def)
  ultimately show ?thesis using g v x by auto
qed

lemma upt2: "[0..<2] = [0, 1]"
  by (simp add: upt_rec)

lemma tiny_gst_init: "GST_init zero_seed tiny = Inr tiny_gst"
  by (simp add: init_defs tiny_def tiny_gst_def tiny_encoder_def Let_def upt3 upt2)

text \<open>
  C1 as stated fails: in the small configuration (\<^verbatim>\<open>token_embedding_size = 2\<close>) the
  output for a batch of two examples has the extents [2, 1, 2], not [2, 2].
\<close>

theorem GST_forward_keeps_query_axis:
  "fst (GST_forward (projr (GST_init zero_seed tiny)) [[[1]], [[1]]] None)
     = Inr [[[0, 0]], [[0, 0]]]
   \<and> \<not> is_tensor2 [[[0::real, 0]], [[0, 0]]] 2 (nat (token_embedding_size tiny))
   \<and> is_tensor3 [[[0::real, 0]], [[0, 0]]] 2 1 (nat (token_embedding_size tiny))"
proof -
  have "fst (ReferenceEncoder_forward tiny_encoder [[[1]], [[1]]] None) = Inr [[0], [0]]"
    by (simp add: encoder_defs tiny_encoder_def Let_def upt3)
  moreover have "STL_forward (stl tiny_gst) [[0], [0]] = Inr [[[0, 0]], [[0, 0]]]"
    by (simp add: STL_forward_def attention_defs tiny_gst_def Let_def)
  ultimately have "fst (GST_forward tiny_gst [[[1]], [[1]]] None) = Inr [[[0, 0]], [[0, 0]]]"
    by (cases "ReferenceEncoder_forward tiny_encoder [[[1]], [[1]]] None")
       (simp add: GST_forward_def tiny_gst_def bind_def)
  moreover have "\<not> is_tensor2 [[[0::real, 0]], [[0, 0]]] 2 (nat (token_embedding_size tiny))"
    by (simp add: tiny_def is_tensor2_def)
  moreover have "is_tensor3 [[[0::real, 0]], [[0, 0]]] 2 1 (nat (token_embedding_size tiny))"
    by (simp add: tiny_def is_tensor2_def is_tensor3_def)
  ultimately show ?thesis
    by (simp only: tiny_gst_init sum.sel simp_thms)
qed

subsection \<open>A number of heads that does not divide the embedding size\<close>

lemma torch_stack_unequal:
  assumes "c1 \<in> set cs" and "c2 \<in> set cs" and "extents3 c1 \<noteq> extents3 c2"
  shows "torch_stack cs = Inl RuntimeError"
proof (cases cs)
  case Nil
  with assms(1) show ?thesis by simp
next
  case (Cons c cs')
  have "extents3 c1 \<noteq> extents3 c \<or> extents3 c2 \<noteq> extents3 c"
    using assms(3) by auto
  then have "\<not> list_all (\<lambda>d. extents3 d = extents3 c) cs"
    using assms(1,2) unfolding list_all_iff by blast
  with Cons show ?thesis by (simp add: torch_stack_def)
qed

lemma num_splits_remainder:
  assumes d: "0 < d" and r: "U mod d \<noteq> 0"
  shows "num_splits U d = Suc (U div d)"
proof -
  define q where "q = U div d"
  define r where "r = U mod d"
  have U: "U = q * d + r" by (simp add: q_def r_def)
  have r0: "0 < r" and rd: "r < d" using assms by (simp_all add: r_def)
  have "U + d - 1 = Suc q * d + (r - 1)" using r0 by (simp add: U)
  then have "(U + d - 1) div d = (Suc q * d + (r - 1)) div d" by simp
  also have "\<dots> = Suc q + (r - 1) div d"
    using d by (simp only: div_mult_self3)
  also have "(r - 1) div d = 0" using rd by simp
  finally show ?thesis by (simp add: num_splits_def q_def)
qed

lemma split_heads_unequal:
  assumes wf: "wf_Linear w" and x: "is_tensor3 x N T (in_features w)"
    and N: "0 < N" and T: "0 < T"
    and u: "num_units m = int (out_features w)"
    and h: "0 < mha_num_heads m" and dpos: "0 < num_units m div mha_num_heads m"
    and nd: "num_units m mod (num_units m div mha_num_heads m) \<noteq> 0"
  shows "split_heads m w x = Inl RuntimeError"
proof -
  define U where "U = out_features w"
  define d where "d = nat (num_units m div mha_num_heads m)"
  define y where "y = project w x"
  define chunk where "chunk = (\<lambda>i. map (map (\<lambda>v. take d (drop (i * d) v))) y)"
  have d: "0 < d" using dpos by (simp add: d_def)
  have dU: "d \<le> U"
  proof -
    have "d = U div nat (mha_num_heads m)"
      using u h by (simp add: d_def U_def nat_div_distrib)
    then show ?thesis by simp
  qed
  have md: "U mod d \<noteq> 0"
  proof -
    have "int (U mod d) = num_units m mod (num_units m div mha_num_heads m)"
      using dpos u by (simp add: d_def U_def zmod_int)
    with nd show ?thesis by auto
  qed
  have yt: "is_tensor3 y N T U"
    unfolding y_def U_def by (rule project_tensor [OF x wf])
  have lf: "Linear_forward w x = Inr y"
    using Linear_forward_tensor [OF x] by (simp add: project_def y_def)
  have fd: "py_floordiv (num_units m) (mha_num_heads m) = Inr (int d)"
    using h dpos by (simp add: py_floordiv_def d_def)
  have sp: "torch_split_last U y (int d) = Inr (map chunk [0..<Suc (U div d)])"
    using d by (simp add: torch_split_last_def num_splits_remainder [OF d md] chunk_def
        del: upt_Suc)
  have e0: "extents3 (chunk 0) = replicate N (replicate T d)"
    using yt dU
    by (auto simp: chunk_def extents3_def is_tensor3_def is_tensor2_def list_all_iff
        intro!: replicate_eqI)
  have "U - U div d * d = U mod d"
    by (simp add: minus_div_mult_eq_mod)
  moreover have "U mod d < d" using d by simp
  ultimately have el: "extents3 (chunk (U div d)) = replicate N (replicate T (U mod d))"
    using yt
    by (auto simp: chunk_def extents3_def is_tensor3_def is_tensor2_def list_all_iff
        intro!: replicate_eqI)
  have ne: "extents3 (chunk 0) \<noteq> extents3 (chunk (U div d))"
  proof -
    have "U mod d \<noteq> d" using d by (metis mod_less_divisor nat_neq_iff)
    then have "replicate T d \<noteq> replicate T (U mod d)"
      using T by (auto simp: replicate_eq_replicate)
    then have "replicate N (replicate T d) \<noteq> replicate N (replicate T (U mod d))"
      using N by (auto simp: replicate_eq_replicate)
    then show ?thesis unfolding e0 el .
  qed
  have "torch_stack (map chunk [0..<Suc (U div d)]) = Inl RuntimeError"
  proof (rule torch_stack_unequal [OF _ _ ne])
    have "0 \<in> set [0..<Suc (U div d)]" and "U div d \<in> set [0..<Suc (U div d)]"
      by auto
    then show "chunk 0 \<in> set (map chunk [0..<Suc (U div d)])"
      and "chunk (U div d) \<in> set (map chunk [0..<Suc (U div d)])"
      unfolding set_map by blast+
  qed
  then show ?thesis
    by (simp add: split_heads_def lf fd sp bind_def U_def [symmetric])
qed


lemma STL_init_fields:
  assumes "STL_init s hp = Inr tok"
  shows "wf_Linear (W_query (attention tok))"
    and "in_features (W_query (attention tok)) = nat (ref_enc_gru_size hp)"
    and "num_units (attention tok) = int (out_features (W_query (attention tok)))"
    and "num_units (attention tok) = token_embedding_size hp"
    and "mha_num_heads (attention tok) = num_heads hp"
    and "key_dim (attention tok) = token_embedding_size hp div num_heads hp"
proof -
  let ?d = "token_embedding_size hp div num_heads hp"
  from assms obtain wq wk wv where
    wq: "Linear_init (sub (sub s 1) 0) (ref_enc_gru_size hp) (token_embedding_size hp) = Inr wq"
    and tok: "tok = \<lparr>embed = tensor2_of (sub s 0) (nat (token_num hp)) (nat ?d),
                     attention = \<lparr>num_units = token_embedding_size hp,
                       mha_num_heads = num_heads hp, key_dim = ?d,
                       W_query = wq, W_key = wk, W_value = wv\<rparr>\<rparr>"
    unfolding STL_init_def MultiHeadAttention_init_def py_floordiv_def bind_def Let_def
    by (auto split: if_splits sum.splits)
  note fq = Linear_init_wf [OF wq]
  show "wf_Linear (W_query (attention tok))" using fq by (simp add: tok)
  show "in_features (W_query (attention tok)) = nat (ref_enc_gru_size hp)"
    using fq by (simp add: tok)
  show "num_units (attention tok) = int (out_features (W_query (attention tok)))"
    using fq by (simp add: tok)
  show "num_units (attention tok) = token_embedding_size hp" by (simp add: tok)
  show "mha_num_heads (attention tok) = num_heads hp" by (simp add: tok)
  show "key_dim (attention tok) = token_embedding_size hp div num_heads hp" by (simp add: tok)
qed

text \<open>
  C2 (amended). The constructors check no divisibility. Whenever \<^verbatim>\<open>num_heads\<close> is not
  zero and no extent is negative, \<^verbatim>\<open>STL\<close> is constructed, with \<^verbatim>\<open>key_dim\<close> the floor of
  \<^verbatim>\<open>token_embedding_size / num_heads\<close>. When that floor is positive and does not divide
  \<^verbatim>\<open>token_embedding_size\<close> (as 31 does not divide 250), it is the forward call on a
  non-empty batch that fails: \<^verbatim>\<open>torch.stack\<close> raises RuntimeError on chunks of unequal
  width.
\<close>

theorem STL_init_without_divisibility_check:
  assumes "num_heads hp \<noteq> 0" and "0 \<le> token_num hp" and "0 \<le> ref_enc_gru_size hp"
    and "0 \<le> token_embedding_size hp" and "0 \<le> token_embedding_size hp div num_heads hp"
  shows "\<exists>tok. STL_init s hp = Inr tok
           \<and> key_dim (attention tok) = token_embedding_size hp div num_heads hp
           \<and> (0 < num_heads hp \<and> 0 < token_embedding_size hp div num_heads hp
                \<and> token_embedding_size hp mod (token_embedding_size hp div num_heads hp) \<noteq> 0
                \<and> is_tensor2 v N (nat (ref_enc_gru_size hp)) \<and> 0 < N
              \<longrightarrow> STL_forward tok v = Inl RuntimeError)"
proof -
  obtain tok where tok: "STL_init s hp = Inr tok"
    using STL_init_succeeds [OF assms] by blast
  note f = STL_init_fields [OF tok]
  have "STL_forward tok v = Inl RuntimeError"
    if h: "0 < num_heads hp" and d: "0 < token_embedding_size hp div num_heads hp"
      and nd: "token_embedding_size hp mod (token_embedding_size hp div num_heads hp) \<noteq> 0"
      and v: "is_tensor2 v N (nat (ref_enc_gru_size hp))" and N: "0 < N"
  proof -
    have q: "is_tensor3 (map (\<lambda>r. [r]) v) N 1 (in_features (W_query (attention tok)))"
      using v f(2) by (simp add: is_tensor3_def is_tensor2_def list_all_iff)
    have h': "0 < mha_num_heads (attention tok)" using h f(5) by simp
    have d': "0 < num_units (attention tok) div mha_num_heads (attention tok)"
      using d f(4,5) by simp
    have nd': "num_units (attention tok)
                 mod (num_units (attention tok) div mha_num_heads (attention tok)) \<noteq> 0"
      using nd f(4,5) by simp
    have one: "(0::nat) < 1" by simp
    have "split_heads (attention tok) (W_query (attention tok)) (map (\<lambda>r. [r]) v)
          = Inl RuntimeError"
      by (rule split_heads_unequal [OF f(1) q N one f(3) h' d' nd'])
    then show ?thesis
      by (simp add: STL_forward_def Let_def MultiHeadAttention_forward_def bind_def)
  qed
  then have "0 < num_heads hp \<and> 0 < token_embedding_size hp div num_heads hp
                \<and> token_embedding_size hp mod (token_embedding_size hp div num_heads hp) \<noteq> 0
                \<and> is_tensor2 v N (nat (ref_enc_gru_size hp)) \<and> 0 < N
              \<longrightarrow> STL_forward tok v = Inl RuntimeError"
    by (intro impI) (elim conjE)
  with tok f(6) show ?thesis by (intro exI [of _ tok] conjI)
qed

theorem STL_init_without_divisibility_check_witness:
  "num_heads scenario_250 \<noteq> 0 \<and> 0 \<le> token_num scenario_250
   \<and> 0 \<le> ref_enc_gru_size scenario_250 \<and> 0 \<le> token_embedding_size scenario_250
   \<and> 0 \<le> token_embedding_size scenario_250 div num_heads scenario_250
   \<and> token_embedding_size scenario_250 mod
        (token_embedding_size scenario_250 div num_heads scenario_250) = 2
   \<and> is_tensor2 (replicate 2 (replicate 128 (1::real))) 2 (nat (ref_enc_gru_size scenario_250))
   \<and> (\<exists>tok. STL_init zero_seed scenario_250 = Inr tok \<and> key_dim (attention tok) = 31
          \<and> STL_forward tok (replicate 2 (replicate 128 1)) = Inl RuntimeError)"
proof -
  have hyps: "num_heads scenario_250 \<noteq> 0" "0 \<le> token_num scenario_250"
    "0 \<le> ref_enc_gru_size scenario_250" "0 \<le> token_embedding_size scenario_250"
    "0 \<le> token_embedding_size scenario_250 div num_heads scenario_250"
    by (simp_all add: scenario_250_def scenario_def)
  have v: "is_tensor2 (replicate 2 (replicate 128 (1::real))) 2
             (nat (ref_enc_gru_size scenario_250))"
    by (simp add: is_tensor2_def list_all_iff scenario_250_def scenario_def)
  have e: "token_embedding_size scenario_250 div num_heads scenario_250 = 31"
    "token_embedding_size scenario_250 mod
        (token_embedding_size scenario_250 div num_heads scenario_250) = 2"
    "0 < num_heads scenario_250"
    by (simp_all add: scenario_250_def scenario_def)
  from STL_init_without_divisibility_check [OF hyps, of zero_seed
      "replicate 2 (replicate 128 1)" 2]
  obtain tok where t: "STL_init zero_seed scenario_250 = Inr tok"
    and k: "key_dim (attention tok)
            = token_embedding_size scenario_250 div num_heads scenario_250"
    and f: "0 < num_heads scenario_250
            \<and> 0 < token_embedding_size scenario_250 div num_heads scenario_250
            \<and> token_embedding_size scenario_250
                  mod (token_embedding_size scenario_250 div num_heads scenario_250) \<noteq> 0
            \<and> is_tensor2 (replicate 2 (replicate 128 (1::real))) 2
                  (nat (ref_enc_gru_size scenario_250)) \<and> (0::nat) < 2
            \<longrightarrow> STL_forward tok (replicate 2 (replicate 128 1)) = Inl RuntimeError"
    by (elim exE conjE) (rule that)
  have "STL_forward tok (replicate 2 (replicate 128 1)) = Inl RuntimeError"
    using f v e by simp
  moreover have "key_dim (attention tok) = 31" using k e by simp
  ultimately have "\<exists>tok. STL_init zero_seed scenario_250 = Inr tok \<and> key_dim (attention tok) = 31
          \<and> STL_forward tok (replicate 2 (replicate 128 1)) = Inl RuntimeError"
    using t by (intro exI [of _ tok] conjI)
  with hyps v e(2) show ?thesis by (intro conjI)
qed

text \<open>
  C2 as stated fails: with \<^verbatim>\<open>token_embedding_size=250\<close> and \<^verbatim>\<open>num_heads=8\<close> the
  constructor of the whole model returns a model.
\<close>

theorem GST_init_accepts_250_8:
  "\<not> isl (GST_init zero_seed scenario_250)
   \<and> token_embedding_size scenario_250 = 250 \<and> num_heads scenario_250 = 8
   \<and> \<not> num_heads scenario_250 dvd token_embedding_size scenario_250"
proof -
  obtain g where "GST_init zero_seed scenario_250 = Inr g"
    using scenario_250_init by blast
  then show ?thesis by (simp add: scenario_250_def scenario_def)
qed

subsection \<open>A batch with another number of mel channels\<close>

lemma concat_rows_take:
  "concat (map (\<lambda>i. take k (drop (i * k) xs)) [0..<n]) = take (n * k) xs"
proof (induction n)
  case 0
  show ?case by simp
next
  case (Suc n)
  have "take (n * k) xs @ take k (drop (n * k) xs) = take (n * k + k) xs"
    by (simp add: take_add)
  with Suc show ?case by (simp add: add.commute)
qed

lemma concat_rows_of:
  assumes "length xs mod k = 0"
  shows "concat (rows_of k xs) = xs"
proof -
  have "length xs div k * k = length xs" using assms by (simp add: mod_0_imp_dvd)
  then show ?thesis by (simp add: rows_of_def concat_rows_take)
qed

text \<open>
  C4 (amended). \<^verbatim>\<open>ReferenceEncoder.forward\<close> does not compare the mel-channel extent
  \<open>M\<close> of its input [N, T, M] with \<^verbatim>\<open>n_mel_channels\<close>. The call is rejected at entry
  (RuntimeError from \<^verbatim>\<open>view\<close>, nothing written) when \<open>T * M\<close> is not a multiple of
  \<^verbatim>\<open>n_mel_channels\<close>; when it is one, the input is read as the batch
  [N, T * M / n_mel_channels, n_mel_channels] over the same buffer, and the call does
  whatever it does for that batch.
\<close>

theorem ReferenceEncoder_forward_mel_mismatch:
  assumes x: "is_tensor3 x N T M" and N: "0 < N" and m: "0 < enc_n_mel_channels enc"
  shows "((T * M) mod nat (enc_n_mel_channels enc) \<noteq> 0
          \<longrightarrow> ReferenceEncoder_forward enc x ls = (Inl RuntimeError, enc))
       \<and> ((T * M) mod nat (enc_n_mel_channels enc) = 0
          \<longrightarrow> is_tensor3 (map (\<lambda>e. rows_of (nat (enc_n_mel_channels enc)) (concat e)) x) N
                (T * M div nat (enc_n_mel_channels enc)) (nat (enc_n_mel_channels enc))
            \<and> ReferenceEncoder_forward enc x ls
              = ReferenceEncoder_forward enc
                  (map (\<lambda>e. rows_of (nat (enc_n_mel_channels enc)) (concat e)) x) ls)"
proof -
  let ?m = "nat (enc_n_mel_channels enc)"
  let ?x' = "map (\<lambda>e. rows_of ?m (concat e)) x"
  have len: "length (concat e) = T * M" if "e \<in> set x" for e
    by (rule length_concat_tensor2 [OF is_tensor3_set [OF x that]])
  have ne: "x \<noteq> []" using x N by (auto simp: is_tensor3_def)
  have a: "ReferenceEncoder_forward enc x ls = (Inl RuntimeError, enc)"
    if "(T * M) mod ?m \<noteq> 0"
  proof -
    obtain e where "e \<in> set x" using ne by (cases x) auto
    then have "\<not> list_all (\<lambda>e. length (concat e) mod ?m = 0) x"
      using len that by (auto simp: list_all_iff)
    then show ?thesis
      by (simp add: ReferenceEncoder_forward_def view_N_1_mel_def)
  qed
  have b: "is_tensor3 ?x' N (T * M div ?m) ?m
           \<and> ReferenceEncoder_forward enc x ls = ReferenceEncoder_forward enc ?x' ls"
    if dv: "(T * M) mod ?m = 0"
  proof -
    have mp: "0 < ?m" using m by simp
    have "is_tensor2 (rows_of ?m (concat e)) (T * M div ?m) ?m" if "e \<in> set x" for e
      using rows_of_tensor [OF mp, of "concat e"] len [OF that] by simp
    then have t: "is_tensor3 ?x' N (T * M div ?m) ?m"
      using x by (simp add: is_tensor3_def list_all_iff)
    have cc: "concat (rows_of ?m (concat e)) = concat e" if "e \<in> set x" for e
      by (rule concat_rows_of) (simp add: len [OF that] dv)
    have "list_all (\<lambda>e. length (concat e) mod ?m = 0) x"
      using len dv by (simp add: list_all_iff)
    moreover have "list_all (\<lambda>e. length (concat e) mod ?m = 0) ?x'"
      using len dv cc by (simp add: list_all_iff)
    moreover have "map (\<lambda>e. [rows_of ?m (concat e)]) ?x' = map (\<lambda>e. [rows_of ?m (concat e)]) x"
      using cc by simp
    ultimately have "view_N_1_mel (enc_n_mel_channels enc) ?x'
                     = view_N_1_mel (enc_n_mel_channels enc) x"
      using ne by (simp add: view_N_1_mel_def)
    then have "ReferenceEncoder_forward enc x ls = ReferenceEncoder_forward enc ?x' ls"
      by (simp add: ReferenceEncoder_forward_def)
    with t show ?thesis by simp
  qed
  from a b show ?thesis by blast
qed

theorem ReferenceEncoder_forward_mel_mismatch_witness:
  "is_tensor3 [[[1::real, 1, 1, 1]], [[1, 1, 1, 1]]] 2 1 4
   \<and> is_tensor3 [[[1::real, 1, 1]], [[1, 1, 1]]] 2 1 3
   \<and> 0 < enc_n_mel_channels (tiny_encoder\<lparr>enc_n_mel_channels := 2\<rparr>)
   \<and> ReferenceEncoder_forward (tiny_encoder\<lparr>enc_n_mel_channels := 2\<rparr>)
        [[[1, 1, 1]], [[1, 1, 1]]] None
      = (Inl RuntimeError, tiny_encoder\<lparr>enc_n_mel_channels := 2\<rparr>)
   \<and> ReferenceEncoder_forward (tiny_encoder\<lparr>enc_n_mel_channels := 2\<rparr>)
        [[[1, 1, 1, 1]], [[1, 1, 1, 1]]] None
      = ReferenceEncoder_forward (tiny_encoder\<lparr>enc_n_mel_channels := 2\<rparr>)
        [[[1, 1], [1, 1]], [[1, 1], [1, 1]]] None"
proof -
  let ?enc = "tiny_encoder\<lparr>enc_n_mel_channels := 2\<rparr>"
  have x4: "is_tensor3 [[[1::real, 1, 1, 1]], [[1, 1, 1, 1]]] 2 1 4"
    and x3: "is_tensor3 [[[1::real, 1, 1]], [[1, 1, 1]]] 2 1 3"
    by (simp_all add: is_tensor3_def is_tensor2_def)
  have m: "0 < enc_n_mel_channels ?enc" by simp
  have N: "(0::nat) < 2" by simp
  have "ReferenceEncoder_forward ?enc [[[1, 1, 1]], [[1, 1, 1]]] None = (Inl RuntimeError, ?enc)"
    using ReferenceEncoder_forward_mel_mismatch [OF x3 N m, of None] by simp
  moreover have "ReferenceEncoder_forward ?enc [[[1, 1, 1, 1]], [[1, 1, 1, 1]]] None
      = ReferenceEncoder_forward ?enc [[[1, 1], [1, 1]], [[1, 1], [1, 1]]] None"
    using ReferenceEncoder_forward_mel_mismatch [OF x4 N m, of None]
    by (simp add: rows_of_def upt2)
  ultimately show ?thesis using x4 x3 m by simp
qed

lemma tiny_mel2_encoder_init:
  "ReferenceEncoder_init zero_seed tiny_mel2 = Inr (tiny_encoder\<lparr>enc_n_mel_channels := 2\<rparr>)"
  by (simp add: init_defs tiny_mel2_def tiny_def tiny_encoder_def Let_def upt3)

text \<open>
  C4 as stated fails: the encoder of the small configuration with two mel channels
  returns an output for a batch [2, 1, 4], whose mel extent is 4.
\<close>

theorem ReferenceEncoder_forward_accepts_other_mel:
  "enc_n_mel_channels (projr (ReferenceEncoder_init zero_seed tiny_mel2)) = 2
   \<and> is_tensor3 [[[1::real, 1, 1, 1]], [[1, 1, 1, 1]]] 2 1 4
   \<and> fst (ReferenceEncoder_forward (projr (ReferenceEncoder_init zero_seed tiny_mel2))
            [[[1, 1, 1, 1]], [[1, 1, 1, 1]]] None) = Inr [[0], [0]]"
proof -
  have "fst (ReferenceEncoder_forward (tiny_encoder\<lparr>enc_n_mel_channels := 2\<rparr>)
            [[[1, 1, 1, 1]], [[1, 1, 1, 1]]] None) = Inr [[0], [0]]"
    by (simp add: encoder_defs tiny_encoder_def Let_def upt3 upt2)
  moreover have "is_tensor3 [[[1::real, 1, 1, 1]], [[1, 1, 1, 1]]] 2 1 4"
    by (simp add: is_tensor3_def is_tensor2_def)
  ultimately show ?thesis by (simp add: tiny_mel2_encoder_init)
qed

end
